theory Spec2Isabelle
  imports Complex_Main "HOL-Library.AList"
begin

section \<open>JavaScript values\<close>

text \<open>
  The module under verification is the coordinate detection and reprojection code of
  \<^verbatim>\<open>MapView.tsx\<close>: \<^verbatim>\<open>detectCoordinateSystem\<close>, \<^verbatim>\<open>convertCoordinates\<close>,
  \<^verbatim>\<open>extractCoordinates\<close> and \<^verbatim>\<open>uploadGeoJSONWithProj4\<close>.

  A JavaScript number is a finite double, \<^verbatim>\<open>NaN\<close> or one of the two infinities. A finite
  double is given by the rational it is, so that comparisons and \<^verbatim>\<open>toFixed\<close> are those of
  the doubles; a decimal literal of the source stands for the double nearest to it (the
  integer literals are doubles themselves); reading a number from a text is left to the
  runtime. \<^verbatim>\<open>-0\<close> is identified with \<^verbatim>\<open>0\<close>: both are falsy, compare equal and print alike
  here.
\<close>

datatype jsnum = Fin rat | NaN | PosInf | NegInf

text \<open>The relational operators \<^verbatim>\<open><=\<close> and \<^verbatim>\<open>>=\<close>: every comparison with \<^verbatim>\<open>NaN\<close> is false.\<close>

fun js_le :: "jsnum \<Rightarrow> jsnum \<Rightarrow> bool" where
  "js_le NaN _ = False"
| "js_le _ NaN = False"
| "js_le NegInf _ = True"
| "js_le _ PosInf = True"
| "js_le (Fin a) (Fin b) = (a \<le> b)"
| "js_le _ _ = False"

definition js_ge :: "jsnum \<Rightarrow> jsnum \<Rightarrow> bool" where
  "js_ge a b = js_le b a"


section \<open>Values, truthiness and property access\<close>

text \<open>
  The functions take \<^verbatim>\<open>any\<close>: a value is \<^verbatim>\<open>undefined\<close>, \<^verbatim>\<open>null\<close>, a boolean, a number,
  a string, an array without holes (as \<^verbatim>\<open>JSON.parse\<close> builds them), or an object given by
  its own properties in insertion order (the first binding of a key is the one read).
  \<open>JFun f\<close> stands for the built-in method named \<open>f\<close> that a read reaches through a
  prototype. Non-ASCII letters of the source's string literals are written as their UTF-8
  bytes.
\<close>

datatype json =
    JUndefined
  | JNull
  | JBool bool
  | JNum jsnum
  | JStr string
  | JArr "json list"
  | JObj "(string \<times> json) list"
  | JFun string

text \<open>An exception object: a \<^verbatim>\<open>TypeError\<close> of the runtime or a plain \<^verbatim>\<open>Error\<close>, with its message.\<close>

datatype exn = TypeError string | Error string

fun message :: "exn \<Rightarrow> string" where
  "message (TypeError m) = m"
| "message (Error m) = m"

definition bind_exn :: "exn + 'a \<Rightarrow> ('a \<Rightarrow> exn + 'b) \<Rightarrow> exn + 'b" where
  "bind_exn m f = (case m of Inl e \<Rightarrow> Inl e | Inr v \<Rightarrow> f v)"

text \<open>\<^verbatim>\<open>!v\<close> is \<open>\<not> truthy v\<close>; \<^verbatim>\<open>a || b\<close> is \<open>jor a b\<close>; \<^verbatim>\<open>a || b || c || d\<close> associates to the left.\<close>

fun truthy :: "json \<Rightarrow> bool" where
  "truthy JUndefined = False"
| "truthy JNull = False"
| "truthy (JBool b) = b"
| "truthy (JNum n) = (n \<noteq> NaN \<and> n \<noteq> Fin 0)"
| "truthy (JStr s) = (s \<noteq> [])"
| "truthy (JArr xs) = True"
| "truthy (JObj kvs) = True"
| "truthy (JFun f) = True"

definition jor :: "json \<Rightarrow> json \<Rightarrow> json" where
  "jor a b = (if truthy a then a else b)"

definition any_of :: "json \<Rightarrow> json list \<Rightarrow> json" where
  "any_of a bs = foldl jor a bs"

fun isArray :: "json \<Rightarrow> bool" where
  "isArray (JArr xs) = True"
| "isArray v = False"

fun typeof :: "json \<Rightarrow> string" where
  "typeof JUndefined = ''undefined''"
| "typeof JNull = ''object''"
| "typeof (JBool b) = ''boolean''"
| "typeof (JNum n) = ''number''"
| "typeof (JStr s) = ''string''"
| "typeof (JArr xs) = ''object''"
| "typeof (JObj kvs) = ''object''"
| "typeof (JFun f) = ''function''"

fun nullish :: "json \<Rightarrow> bool" where
  "nullish JUndefined = True"
| "nullish JNull = True"
| "nullish v = False"

text \<open>Decimal digits of a natural number, as \<^verbatim>\<open>String(n)\<close> writes them.\<close>

definition digit_char :: "nat \<Rightarrow> char" where
  "digit_char d = ''0123456789'' ! d"

fun digits10 :: "nat \<Rightarrow> string" where
  "digits10 n =
     (if n < 10 then [digit_char n]
      else digits10 (n div 10) @ [digit_char (n mod 10)])"

declare digits10.simps [simp del]

text \<open>
  Reading the property \<open>k\<close> of a value that is neither \<^verbatim>\<open>null\<close> nor \<^verbatim>\<open>undefined\<close>. An
  object yields its own property or \<^verbatim>\<open>undefined\<close>. Of the names this module reads, an
  array inherits only \<^verbatim>\<open>shift\<close> (a method of \<^verbatim>\<open>Array.prototype\<close>) and has \<^verbatim>\<open>length\<close>;
  booleans, numbers and strings have none of them besides the \<^verbatim>\<open>length\<close> of a string,
  and a built-in method has its \<^verbatim>\<open>name\<close>.
\<close>

fun getOwn :: "json \<Rightarrow> string \<Rightarrow> json" where
  "getOwn (JObj kvs) k = (case map_of kvs k of None \<Rightarrow> JUndefined | Some v \<Rightarrow> v)"
| "getOwn (JArr xs) k =
     (if k = ''length'' then JNum (Fin (of_nat (length xs)))
      else if k = ''shift'' then JFun ''shift'' else JUndefined)"
| "getOwn (JStr s) k = (if k = ''length'' then JNum (Fin (of_nat (length s))) else JUndefined)"
| "getOwn (JFun f) k = (if k = ''name'' then JStr f else JUndefined)"
| "getOwn v k = JUndefined"

text \<open>
  \<^verbatim>\<open>v.k\<close> throws a \<^verbatim>\<open>TypeError\<close> on \<^verbatim>\<open>null\<close> and \<^verbatim>\<open>undefined\<close> (its message is
  abridged; nothing below reads it); \<^verbatim>\<open>v?.k\<close> gives \<^verbatim>\<open>undefined\<close> there.
\<close>

definition getProp :: "json \<Rightarrow> string \<Rightarrow> exn + json" where
  "getProp v k =
     (if nullish v then Inl (TypeError (''Cannot read properties of '' @
          (if v = JNull then ''null'' else ''undefined'')))
      else Inr (getOwn v k))"

definition optGet :: "json \<Rightarrow> string \<Rightarrow> json" where
  "optGet v k = (if nullish v then JUndefined else getOwn v k)"

text \<open>\<^verbatim>\<open>v[i]\<close> for a numeric index.\<close>

definition getIndex :: "json \<Rightarrow> nat \<Rightarrow> exn + json" where
  "getIndex v i =
     (case v of
        JArr xs \<Rightarrow> Inr (if i < length xs then xs ! i else JUndefined)
      | JStr s \<Rightarrow> Inr (if i < length s then JStr [s ! i] else JUndefined)
      | JObj kvs \<Rightarrow> Inr (getOwn v (digits10 i))
      | _ \<Rightarrow> if nullish v
               then Inl (TypeError (''Cannot read properties of '' @
                      (if v = JNull then ''null'' else ''undefined'')))
               else Inr JUndefined)"

text \<open>
  Conversion to a primitive, which \<^verbatim>\<open>Number(v)\<close> and a template literal perform on an
  object. The runtime calls the methods \<^verbatim>\<open>valueOf\<close> and \<^verbatim>\<open>toString\<close> (in this or the other
  order) and skips one that is not callable. The inherited \<^verbatim>\<open>valueOf\<close> returns the object
  itself, which is not a primitive, and the inherited \<^verbatim>\<open>toString\<close> returns a string. So an
  object with an own \<^verbatim>\<open>toString\<close> that is not callable, and no callable own \<^verbatim>\<open>valueOf\<close>,
  cannot be converted: the runtime throws a \<^verbatim>\<open>TypeError\<close>. The \<^verbatim>\<open>toString\<close> of an array
  joins the texts of its elements, so an array cannot be converted when one of its
  elements cannot.
\<close>

fun callable :: "json \<Rightarrow> bool" where
  "callable (JFun f) = True"
| "callable v = False"

fun unconvertible :: "json \<Rightarrow> bool" where
  "unconvertible (JObj kvs) =
     ((case map_of kvs ''valueOf'' of None \<Rightarrow> True | Some m \<Rightarrow> \<not> callable m) \<and>
      (case map_of kvs ''toString'' of None \<Rightarrow> False | Some m \<Rightarrow> \<not> callable m))"
| "unconvertible (JArr xs) = list_ex unconvertible xs"
| "unconvertible v = False"

definition msg_unconvertible :: string where
  "msg_unconvertible = ''Cannot convert object to primitive value''"

section \<open>The runtime and the libraries the module calls\<close>

datatype table = Collection_points | Urban_furniture | Sweeping_routes

text \<open>
  What lies outside the repository is a parameter:
  \<^item> \<open>proj4_transform src dst (x, y)\<close>, the transformation of the projection library
    between two systems given by their parameter strings: it returns the transformed pair
    or throws an error;
  \<^item> \<open>numToString r\<close>, the runtime's \<^verbatim>\<open>Number::toString\<close> on a finite number of
    magnitude at least \<open>10^21\<close> (exponent notation, which depends on the double);
  \<^item> \<open>toNumber v\<close>, the number that the runtime's \<^verbatim>\<open>Number(v)\<close> returns on a string, and on
    an array, an object or a function that can be converted to a primitive;
  \<^item> \<open>clock i\<close>, the text of \<^verbatim>\<open>new Date().toISOString()\<close> read while the feature of
    index \<open>i\<close> is mapped;
  \<^item> \<open>db_insert t rows\<close>, the storage client's \<^verbatim>\<open>from(t).insert(rows)\<close>: the returned
    \<^verbatim>\<open>data\<close>, and the message of the returned \<^verbatim>\<open>error\<close> when there is one.
\<close>

record runtime =
  proj4_transform :: "string \<Rightarrow> string \<Rightarrow> jsnum \<times> jsnum \<Rightarrow> exn + jsnum \<times> jsnum"
  numToString :: "rat \<Rightarrow> string"
  toNumber :: "json \<Rightarrow> jsnum"
  clock :: "nat \<Rightarrow> string"
  db_insert :: "table \<Rightarrow> json list \<Rightarrow> json \<times> string option"

text \<open>
  The systems registered by \<^verbatim>\<open>proj4.defs\<close> when the module is loaded, and the call
  \<^verbatim>\<open>proj4(src, dst, [x, y])\<close>: a registered name stands for its parameter string, any
  other string is handed to the library as it is.
\<close>

definition proj4_defs :: "(string \<times> string) list" where
  "proj4_defs =
     [(''EPSG:4326'', ''+proj=longlat +datum=WGS84 +no_defs''),
      (''EPSG:32628'', ''+proj=utm +zone=28 +datum=WGS84 +units=m +no_defs''),
      (''EPSG:32627'', ''+proj=utm +zone=27 +datum=WGS84 +units=m +no_defs''),
      (''EPSG:2147'',
       ''+proj=lcc +lat_1=13.5 +lat_2=15.5 +lat_0=14.5 +lon_0=-14 +x_0=400000 +y_0=300000 '' @
       ''+ellps=clrk80 +towgs84=-263,6,431,0,0,0,0 +units=m +no_defs'')]"

definition proj4_params :: "string \<Rightarrow> string" where
  "proj4_params name = (case map_of proj4_defs name of None \<Rightarrow> name | Some ps \<Rightarrow> ps)"

definition proj4 :: "runtime \<Rightarrow> string \<Rightarrow> string \<Rightarrow> jsnum \<times> jsnum \<Rightarrow> exn + jsnum \<times> jsnum" where
  "proj4 rt src dst p = proj4_transform rt (proj4_params src) (proj4_params dst) p"

subsection \<open>\<^verbatim>\<open>Number.prototype.toFixed\<close>\<close>

text \<open>
  \<^verbatim>\<open>x.toFixed(f)\<close> on a finite \<open>x\<close> below \<open>10^21\<close> in magnitude: the integer \<open>n\<close> nearest
  to \<open>\<bar>x\<bar> * 10^f\<close> (the larger one on a tie), written with \<open>f\<close> digits after the point and
  a minus sign when \<open>x < 0\<close>.
\<close>

definition fixedDigits :: "nat \<Rightarrow> rat \<Rightarrow> nat" where
  "fixedDigits f r = nat \<lfloor>\<bar>r\<bar> * 10 ^ f + 1 / 2\<rfloor>"

definition padZeros :: "nat \<Rightarrow> string \<Rightarrow> string" where
  "padZeros f ds = replicate (f - length ds) (CHR ''0'') @ ds"

definition toFixed :: "runtime \<Rightarrow> nat \<Rightarrow> jsnum \<Rightarrow> string" where
  "toFixed rt f x =
     (case x of
        NaN \<Rightarrow> ''NaN''
      | PosInf \<Rightarrow> ''Infinity''
      | NegInf \<Rightarrow> ''-Infinity''
      | Fin r \<Rightarrow>
          (if r < 0 then ''-'' else []) @
          (if \<bar>r\<bar> \<ge> 10 ^ 21 then numToString rt \<bar>r\<bar>
           else let n = fixedDigits f r in
             if f = 0 then digits10 n
             else digits10 (n div 10 ^ f) @ ''.'' @ padZeros f (digits10 (n mod 10 ^ f))))"

subsection \<open>\<^verbatim>\<open>Number\<close> called as a function\<close>

text \<open>
  \<^verbatim>\<open>Number(v)\<close>: fixed on \<^verbatim>\<open>undefined\<close>, \<^verbatim>\<open>null\<close>, booleans and numbers, the runtime's reading
  of a string, and on any other value a \<^verbatim>\<open>TypeError\<close> when the value cannot be converted
  to a primitive.
\<close>

definition Number_js :: "runtime \<Rightarrow> json \<Rightarrow> exn + jsnum" where
  "Number_js rt v =
     (case v of
        JNum n \<Rightarrow> Inr n
      | JUndefined \<Rightarrow> Inr NaN
      | JNull \<Rightarrow> Inr (Fin 0)
      | JBool b \<Rightarrow> Inr (Fin (if b then 1 else 0))
      | JStr s \<Rightarrow> Inr (toNumber rt v)
      | _ \<Rightarrow> if unconvertible v then Inl (TypeError msg_unconvertible)
             else Inr (toNumber rt v))"

section \<open>Detection of the source coordinate system\<close>

text \<open>
  The warning of \<^verbatim>\<open>detectCoordinateSystem\<close>, with the two numbers as they are rather than
  rendered into the text. It is the only console output a statement below reads. The other
  diagnostics of the module print and change no result, and the console is left out there;
  what is kept is that writing the text of the warning on an unsupported geometry converts
  the type tag to a string, which can throw.
\<close>

datatype console_msg = WarnUndetected jsnum jsnum

text \<open>
  \<^verbatim>\<open>detectCoordinateSystem(x, y)\<close>: four range tests in the order of the source, then
  the warning and the default. The result pairs the returned identifier with the console
  output of the call.
\<close>

definition detectCoordinateSystem :: "jsnum \<Rightarrow> jsnum \<Rightarrow> string \<times> console_msg list" where
  "detectCoordinateSystem x y =
     (if js_ge x (Fin (-180)) \<and> js_le x (Fin 180) \<and> js_ge y (Fin (-90)) \<and> js_le y (Fin 90)
        then (''EPSG:4326'', [])
      else if js_ge x (Fin 200000) \<and> js_le x (Fin 800000) \<and>
              js_ge y (Fin 1400000) \<and> js_le y (Fin 1900000)
        then (''EPSG:32628'', [])
      else if js_ge x (Fin 400000) \<and> js_le x (Fin 900000) \<and>
              js_ge y (Fin 1400000) \<and> js_le y (Fin 1900000)
        then (''EPSG:32627'', [])
      else if js_ge x (Fin 200000) \<and> js_le x (Fin 600000) \<and>
              js_ge y (Fin 0) \<and> js_le y (Fin 500000)
        then (''EPSG:2147'', [])
      else (''EPSG:32628'', [WarnUndetected x y]))"

section \<open>Conversion to longitude and latitude\<close>

text \<open>
  The object \<^verbatim>\<open>convertCoordinates\<close> returns: \<^verbatim>\<open>longitude\<close> and \<^verbatim>\<open>latitude\<close> are a number
  or \<^verbatim>\<open>null\<close> (\<open>None\<close>); \<^verbatim>\<open>sourceSystem\<close> and \<^verbatim>\<open>error\<close> are present or not.
\<close>

record conv_result =
  longitude :: "jsnum option"
  latitude :: "jsnum option"
  sourceSystem :: "string option"
  error :: "string option"

definition failure :: "string \<Rightarrow> conv_result" where
  "failure msg = \<lparr>longitude = None, latitude = None, sourceSystem = None, error = Some msg\<rparr>"

definition e_acute :: string where
  "e_acute = [CHR 0xC3, CHR 0xA9]"

definition msg_invalid :: string where
  "msg_invalid = ''Coordonn'' @ e_acute @ ''es invalides''"

definition msg_non_numeric :: string where
  "msg_non_numeric = ''Coordonn'' @ e_acute @ ''es non num'' @ e_acute @ ''riques''"

definition msg_out_of_bounds :: "runtime \<Rightarrow> jsnum \<Rightarrow> jsnum \<Rightarrow> string" where
  "msg_out_of_bounds rt lon lat =
     ''Coordonn'' @ e_acute @ ''es converties hors limites du S'' @ e_acute @ ''n'' @ e_acute @
     ''gal: ['' @ toFixed rt 2 lon @ '', '' @ toFixed rt 2 lat @ '']''"

text \<open>
  \<^verbatim>\<open>senegalBounds\<close>: the doubles that the literals \<^verbatim>\<open>-17.8\<close>, \<^verbatim>\<open>-11.2\<close>, \<^verbatim>\<open>12.0\<close> and \<^verbatim>\<open>16.8\<close>
  denote. The first lies just below \<open>-17.8\<close>, the second just above \<open>-11.2\<close> and the last
  just above \<open>16.8\<close>; the denominator is \<open>2^48\<close>.
\<close>

definition minLon :: rat where
  "minLon = - 5010254585449677 / 281474976710656"

definition maxLon :: rat where
  "maxLon = - 3152519739159347 / 281474976710656"

definition minLat :: rat where
  "minLat = 12"

definition maxLat :: rat where
  "maxLat = 4728779608739021 / 281474976710656"

text \<open>The test against \<^verbatim>\<open>senegalBounds\<close>.\<close>

definition inSenegalBounds :: "jsnum \<Rightarrow> jsnum \<Rightarrow> bool" where
  "inSenegalBounds lon lat =
     (js_ge lon (Fin minLon) \<and> js_le lon (Fin maxLon) \<and>
      js_ge lat (Fin minLat) \<and> js_le lat (Fin maxLat))"

text \<open>The body of the \<^verbatim>\<open>try\<close> block, entered with the two numbers \<open>x\<close> and \<open>y\<close>.\<close>

definition convertCoordinates_try :: "runtime \<Rightarrow> jsnum \<Rightarrow> jsnum \<Rightarrow> exn + conv_result" where
  "convertCoordinates_try rt x y =
     (let sourceProj = fst (detectCoordinateSystem x y) in
      if sourceProj = ''EPSG:4326''
        then Inr \<lparr>longitude = Some x, latitude = Some y,
                  sourceSystem = Some sourceProj, error = None\<rparr>
      else bind_exn (proj4 rt sourceProj ''EPSG:4326'' (x, y)) (\<lambda>(lon, lat).
        if inSenegalBounds lon lat
          then bind_exn (Number_js rt (JStr (toFixed rt 6 lon))) (\<lambda>lon6.
               bind_exn (Number_js rt (JStr (toFixed rt 6 lat))) (\<lambda>lat6.
                 Inr \<lparr>longitude = Some lon6, latitude = Some lat6,
                      sourceSystem = Some sourceProj, error = None\<rparr>))
        else Inr (failure (msg_out_of_bounds rt lon lat))))"

text \<open>
  \<^verbatim>\<open>convertCoordinates(coordinates)\<close>: the two guards, then the \<^verbatim>\<open>try\<close> block, whose
  exceptions the \<^verbatim>\<open>catch\<close> clause turns into a failure carrying the message.
\<close>

definition convertCoordinates :: "runtime \<Rightarrow> json \<Rightarrow> exn + conv_result" where
  "convertCoordinates rt coordinates =
     (case coordinates of
        JArr cs \<Rightarrow>
          if length cs < 2 then Inr (failure msg_invalid)
          else (case (cs ! 0, cs ! 1) of
                  (JNum x, JNum y) \<Rightarrow>
                    (case convertCoordinates_try rt x y of
                       Inl e \<Rightarrow> Inr (failure (''Erreur de conversion: '' @ message e))
                     | Inr r \<Rightarrow> Inr r)
                | _ \<Rightarrow> Inr (failure msg_non_numeric))
      | _ \<Rightarrow> Inr (failure msg_invalid))"

section \<open>The representative coordinate of a geometry\<close>

text \<open>
  The guarded reads of \<^verbatim>\<open>extractCoordinates\<close>: \<^verbatim>\<open>c[0]\<close> when it is an array, \<^verbatim>\<open>c[0][0]\<close>
  when \<^verbatim>\<open>c[0]\<close> and it are arrays, \<^verbatim>\<open>c[0][0][0]\<close> likewise, and \<^verbatim>\<open>null\<close> otherwise; \<^verbatim>\<open>&&\<close>
  stops at the first test that fails.
\<close>

definition nested1 :: "json \<Rightarrow> exn + json" where
  "nested1 c =
     bind_exn (getIndex c 0) (\<lambda>c0. if isArray c0 then Inr c0 else Inr JNull)"

definition nested2 :: "json \<Rightarrow> exn + json" where
  "nested2 c =
     bind_exn (getIndex c 0) (\<lambda>c0.
       if \<not> isArray c0 then Inr JNull
       else bind_exn (getIndex c0 0) (\<lambda>c00. if isArray c00 then Inr c00 else Inr JNull))"

definition nested3 :: "json \<Rightarrow> exn + json" where
  "nested3 c =
     bind_exn (getIndex c 0) (\<lambda>c0.
       if \<not> isArray c0 then Inr JNull
       else bind_exn (getIndex c0 0) (\<lambda>c00.
         if \<not> isArray c00 then Inr JNull
         else bind_exn (getIndex c00 0) (\<lambda>c000.
           if isArray c000 then Inr c000 else Inr JNull)))"

text \<open>
  \<^verbatim>\<open>extractCoordinates(geometry)\<close>. For a type outside the six, the source writes a warning
  whose text embeds the type tag and then returns \<^verbatim>\<open>null\<close>: embedding the tag converts it to
  a string.
\<close>

definition extractCoordinates :: "json \<Rightarrow> exn + json" where
  "extractCoordinates geometry =
     (if \<not> truthy geometry then Inr JNull
      else bind_exn (getProp geometry ''coordinates'') (\<lambda>coordinates.
        if \<not> truthy coordinates then Inr JNull
        else bind_exn (getProp geometry ''type'') (\<lambda>ty.
          if ty = JStr ''Point'' then Inr coordinates
          else if ty = JStr ''LineString'' then nested1 coordinates
          else if ty = JStr ''Polygon'' then nested2 coordinates
          else if ty = JStr ''MultiPoint'' then nested1 coordinates
          else if ty = JStr ''MultiLineString'' then nested2 coordinates
          else if ty = JStr ''MultiPolygon'' then nested3 coordinates
          else if unconvertible ty then Inl (TypeError msg_unconvertible)
          else Inr JNull)))"

section \<open>Mapping a feature collection to rows\<close>

text \<open>\<^verbatim>\<open>conversionStats\<close>; \<^verbatim>\<open>systems\<close> is an object used as a dictionary, its keys in insertion order.\<close>

record stats =
  total_stat :: nat
  success :: nat
  failed :: nat
  systems :: "(string \<times> nat) list"

text \<open>\<^verbatim>\<open>systems[s] = (systems[s] || 0) + 1\<close>\<close>

definition bumpSystem :: "string \<Rightarrow> (string \<times> nat) list \<Rightarrow> (string \<times> nat) list" where
  "bumpSystem s sys =
     AList.update s ((case map_of sys s of None \<Rightarrow> 0 | Some n \<Rightarrow> n) + 1) sys"

text \<open>\<^verbatim>\<open>Number(v) || 0\<close>\<close>

definition numberOr0 :: "runtime \<Rightarrow> json \<Rightarrow> exn + json" where
  "numberOr0 rt v = bind_exn (Number_js rt v) (\<lambda>n. Inr (jor (JNum n) (JNum (Fin 0))))"

definition E_acute :: string where
  "E_acute = [CHR 0xC3, CHR 0x89]"

definition e_grave :: string where
  "e_grave = [CHR 0xC3, CHR 0xA8]"

definition e_circ :: string where
  "e_circ = [CHR 0xC3, CHR 0xAA]"

text \<open>
  The closures \<^verbatim>\<open>getName\<close> and \<^verbatim>\<open>getStatus\<close> and the three row shapes. \<open>props\<close> is the
  value of \<^verbatim>\<open>feature.properties\<close>, which every \<^verbatim>\<open>feature.properties?.k\<close> reads again.
  Building a row throws when one of its \<^verbatim>\<open>Number(...)\<close> does; nothing else in it can.
\<close>

definition getName :: "json \<Rightarrow> nat \<Rightarrow> json" where
  "getName props index =
     any_of (optGet props ''name'')
       [optGet props ''nom'', optGet props ''NAME'', optGet props ''NOM'',
        JStr (E_acute @ ''l'' @ e_acute @ ''ment '' @ digits10 (index + 1))]"

definition getStatus :: "json \<Rightarrow> json" where
  "getStatus props =
     any_of (optGet props ''status'')
       [optGet props ''statut'', optGet props ''STATUS'', optGet props ''STATUT'']"

definition baseData :: "json \<Rightarrow> jsnum \<Rightarrow> jsnum \<Rightarrow> (string \<times> json) list" where
  "baseData props lon lat =
     [(''latitude'', JNum lat),
      (''longitude'', JNum lon),
      (''commune_id'', any_of (optGet props ''commune_id'') [optGet props ''COMMUNE_ID'', JNull])]"

definition capacity_kg :: "runtime \<Rightarrow> json \<Rightarrow> exn + json" where
  "capacity_kg rt props =
     numberOr0 rt (any_of (optGet props ''capacity_kg'')
       [optGet props ''capacite_kg'', optGet props ''CAPACITY_KG''])"

definition buildRow ::
  "runtime \<Rightarrow> table \<Rightarrow> json \<Rightarrow> nat \<Rightarrow> jsnum \<Rightarrow> jsnum \<Rightarrow> exn + json" where
  "buildRow rt tbl props index lon lat =
     (case tbl of
        Collection_points \<Rightarrow>
          bind_exn (capacity_kg rt props) (\<lambda>capacity.
            Inr (JObj (baseData props lon lat @
              [(''name'', getName props index),
               (''type'', any_of (optGet props ''type'') [optGet props ''TYPE'', JStr ''bin'']),
               (''capacity_kg'', capacity),
               (''waste_type'', any_of (optGet props ''waste_type'')
                  [optGet props ''type_dechet'', optGet props ''WASTE_TYPE'', JStr ''general'']),
               (''status'', jor (getStatus props) (JStr ''active''))])))
      | Urban_furniture \<Rightarrow>
          bind_exn (capacity_kg rt props) (\<lambda>capacity.
            Inr (JObj (baseData props lon lat @
              [(''type'', any_of (optGet props ''type'') [optGet props ''TYPE'', JStr ''PRN'']),
               (''name'', getName props index),
               (''location'', any_of (optGet props ''location'')
                  [optGet props ''adresse'', optGet props ''LOCATION'', optGet props ''ADRESSE'',
                   JStr []]),
               (''install_date'', any_of (optGet props ''install_date'')
                  [optGet props ''date_installation'', optGet props ''INSTALL_DATE'',
                   JStr (clock rt index)]),
               (''last_maintenance_date'', any_of (optGet props ''last_maintenance_date'')
                  [optGet props ''derniere_maintenance'', optGet props ''LAST_MAINTENANCE'',
                   JNull]),
               (''capacity_kg'', capacity),
               (''status'', jor (getStatus props) (JStr ''good''))])))
      | Sweeping_routes \<Rightarrow>
          bind_exn (numberOr0 rt (any_of (optGet props ''length_meters'')
              [optGet props ''longueur_m'', optGet props ''LENGTH_METERS'',
               optGet props ''LONGUEUR_M''])) (\<lambda>length_meters.
          bind_exn (numberOr0 rt (any_of (optGet props ''estimated_duration_minutes'')
              [optGet props ''duree_estimee_min'', optGet props ''ESTIMATED_DURATION'',
               optGet props ''DUREE_ESTIMEE''])) (\<lambda>estimated_duration_minutes.
            Inr (JObj (
              [(''name'', getName props index),
               (''code'', any_of (optGet props ''code'')
                  [optGet props ''CODE'', optGet props ''identifiant'',
                   optGet props ''IDENTIFIANT'', JNull]),
               (''commune_id'', any_of (optGet props ''commune_id'')
                  [optGet props ''COMMUNE_ID'', JNull]),
               (''shift'', any_of (optGet props ''shift'')
                  [optGet props ''equipe'', optGet props ''SHIFT'', optGet props ''EQUIPE'',
                   JStr ''matin'']),
               (''length_meters'', length_meters),
               (''estimated_duration_minutes'', estimated_duration_minutes),
               (''status'', jor (getStatus props) (JStr ''active''))] @
              (if truthy (JNum lon) \<and> truthy (JNum lat)
                 then [(''latitude'', JNum lat), (''longitude'', JNum lon)]
               else []))))))"

text \<open>
  The body of the inner \<^verbatim>\<open>try\<close> of the callback given to \<^verbatim>\<open>features.map\<close>. It returns
  the row, \<^verbatim>\<open>null\<close>, or the exception thrown, together with \<^verbatim>\<open>conversionStats\<close> as the
  body left it: \<^verbatim>\<open>success\<close> and \<^verbatim>\<open>systems\<close> are updated before the row is built.
\<close>

definition mapFeature_try ::
  "runtime \<Rightarrow> table \<Rightarrow> json \<Rightarrow> nat \<Rightarrow> stats \<Rightarrow> (exn + json) \<times> stats" where
  "mapFeature_try rt tbl feature index st =
     (case getProp feature ''geometry'' of
        Inl e \<Rightarrow> (Inl e, st)
      | Inr geometry \<Rightarrow>
     (case extractCoordinates geometry of
        Inl e \<Rightarrow> (Inl e, st)
      | Inr coordinates \<Rightarrow>
          if \<not> truthy coordinates then (Inr JNull, st\<lparr>failed := failed st + 1\<rparr>)
          else
     (case convertCoordinates rt coordinates of
        Inl e \<Rightarrow> (Inl e, st)
      | Inr r \<Rightarrow>
     (case longitude r of
        None \<Rightarrow> (Inr JNull, st\<lparr>failed := failed st + 1\<rparr>)
      | Some lon \<Rightarrow>
     (case latitude r of
        None \<Rightarrow> (Inr JNull, st\<lparr>failed := failed st + 1\<rparr>)
      | Some lat \<Rightarrow>
          let st1 = st\<lparr>success := success st + 1\<rparr>;
              st2 = (case sourceSystem r of
                       None \<Rightarrow> st1
                     | Some s \<Rightarrow> if s = [] then st1
                                 else st1\<lparr>systems := bumpSystem s (systems st1)\<rparr>)
          in (case getProp feature ''properties'' of
                Inl e \<Rightarrow> (Inl e, st2)
              | Inr props \<Rightarrow> (buildRow rt tbl props index lon lat, st2)))))))"

text \<open>The callback: the \<^verbatim>\<open>catch\<close> clause counts the feature as failed and yields \<^verbatim>\<open>null\<close>.\<close>

definition mapFeature :: "runtime \<Rightarrow> table \<Rightarrow> json \<Rightarrow> nat \<Rightarrow> stats \<Rightarrow> json \<times> stats" where
  "mapFeature rt tbl feature index st =
     (case mapFeature_try rt tbl feature index st of
        (Inl e, st') \<Rightarrow> (JNull, st'\<lparr>failed := failed st' + 1\<rparr>)
      | (Inr v, st') \<Rightarrow> (v, st'))"

text \<open>\<^verbatim>\<open>features.map(callback)\<close>, from index \<open>index\<close> on, threading \<^verbatim>\<open>conversionStats\<close>.\<close>

fun mapFeatures :: "runtime \<Rightarrow> table \<Rightarrow> json list \<Rightarrow> nat \<Rightarrow> stats \<Rightarrow> json list \<times> stats" where
  "mapFeatures rt tbl [] index st = ([], st)"
| "mapFeatures rt tbl (feature # rest) index st =
     (let (v, st') = mapFeature rt tbl feature index st;
          (vs, st'') = mapFeatures rt tbl rest (index + 1) st'
      in (v # vs, st''))"

definition err_not_object :: string where
  "err_not_object = ''Le fichier doit contenir un objet JSON valide''"

definition err_not_collection :: string where
  "err_not_collection =
     ''Le GeoJSON doit '' @ e_circ @ ''tre de type '' @ [CHR 0x22] @ ''FeatureCollection'' @ [CHR 0x22]"

definition err_no_features :: string where
  "err_no_features =
     ''Le GeoJSON doit contenir un tableau '' @ [CHR 0x22] @ ''features'' @ [CHR 0x22]"

definition err_empty :: string where
  "err_empty = ''Le GeoJSON ne contient aucune feature''"

definition err_none_valid :: string where
  "err_none_valid =
     ''Aucune feature valide trouv'' @ e_acute @ ''e dans le GeoJSON apr'' @ e_grave @
     ''s conversion''"

definition err_insert :: "string \<Rightarrow> string" where
  "err_insert m = ''Erreur lors de l'' @ [CHR 0x27] @ ''insertion en base : '' @ m"

text \<open>
  \<^verbatim>\<open>uploadGeoJSONWithProj4\<close> up to the call of the storage client: the four checks, the
  statistics, the mapping, the filter and the check that a row is left. It yields
  \<^verbatim>\<open>toInsert\<close> and \<^verbatim>\<open>conversionStats\<close>.
\<close>

definition prepareRows :: "runtime \<Rightarrow> json \<Rightarrow> table \<Rightarrow> exn + json list \<times> stats" where
  "prepareRows rt geojson tbl =
     (if \<not> truthy geojson \<or> typeof geojson \<noteq> ''object'' then Inl (Error err_not_object)
      else bind_exn (getProp geojson ''type'') (\<lambda>ty.
        if ty \<noteq> JStr ''FeatureCollection'' then Inl (Error err_not_collection)
        else bind_exn (getProp geojson ''features'') (\<lambda>fs.
          case fs of
            JArr features \<Rightarrow>
              if length features = 0 then Inl (Error err_empty)
              else
                let conversionStats =
                      \<lparr>total_stat = length features, success = 0, failed = 0, systems = []\<rparr>;
                    (items, st) = mapFeatures rt tbl features 0 conversionStats;
                    toInsert = filter (\<lambda>item. item \<noteq> JNull) items
                in if length toInsert = 0 then Inl (Error err_none_valid)
                   else Inr (toInsert, st)
          | _ \<Rightarrow> Inl (Error err_no_features))))"

text \<open>What \<^verbatim>\<open>uploadGeoJSONWithProj4\<close> resolves to.\<close>

record upload_result =
  data :: json
  count :: nat
  skipped :: nat
  conversionStats :: stats

text \<open>
  \<^verbatim>\<open>uploadGeoJSONWithProj4(geojson, table)\<close>: the outer \<^verbatim>\<open>catch\<close> logs and throws the same
  exception again, so an exception of the body is the exception of the call.
\<close>

definition uploadGeoJSONWithProj4 :: "runtime \<Rightarrow> json \<Rightarrow> table \<Rightarrow> exn + upload_result" where
  "uploadGeoJSONWithProj4 rt geojson tbl =
     bind_exn (prepareRows rt geojson tbl) (\<lambda>(toInsert, st).
       case db_insert rt tbl toInsert of
         (d, Some m) \<Rightarrow> Inl (Error (err_insert m))
       | (d, None) \<Rightarrow>
           Inr \<lparr>data = d, count = length toInsert, skipped = failed st,
                conversionStats = st\<rparr>)"

section \<open>Notions used by the statements\<close>



text \<open>Whether an object has the key \<open>k\<close> among its own properties.\<close>

fun hasOwn :: "json \<Rightarrow> string \<Rightarrow> bool" where
  "hasOwn (JObj kvs) k = (map_of kvs k \<noteq> None)"
| "hasOwn v k = False"

text \<open>Whether the properties of a feature give an installation date under one of its three names.\<close>

definition has_install_date :: "json \<Rightarrow> bool" where
  "has_install_date f =
     truthy (any_of (optGet (optGet f ''properties'') ''install_date'')
       [optGet (optGet f ''properties'') ''date_installation'',
        optGet (optGet f ''properties'') ''INSTALL_DATE''])"

text \<open>The exact rounding of a number to \<open>f\<close> decimals, away from zero on a tie.\<close>

definition roundFixed :: "nat \<Rightarrow> jsnum \<Rightarrow> jsnum" where
  "roundFixed f x =
     (case x of
        Fin r \<Rightarrow>
          (if \<bar>r\<bar> \<ge> 10 ^ 21 then Fin r
           else Fin ((if r < 0 then - 1 else 1) * of_nat (fixedDigits f r) / 10 ^ f))
      | _ \<Rightarrow> x)"

section \<open>Example inputs\<close>

text \<open>
  A runtime for the examples. The stand-in for the projection library answers at three
  points, with the doubles nearest to \<open>(-16.8612345677, 14.7398765431)\<close>, to
  \<open>(-15, 45.1233)\<close> and to \<open>(-15, 16.8)\<close>, and throws elsewhere. \<^verbatim>\<open>Number\<close> reads four texts,
  each as the double nearest to it, and no other. The clock is fixed and the storage client
  accepts every row.
\<close>

definition example_proj4 :: "string \<Rightarrow> string \<Rightarrow> jsnum \<times> jsnum \<Rightarrow> exn + jsnum \<times> jsnum" where
  "example_proj4 src dst p =
     (if p = (Fin 300000, Fin 1630000)
        then Inr (Fin (- 4746015607256265 / 281474976710656),
                  Fin (4148906406687017 / 281474976710656))
      else if p = (Fin 500000, Fin 5000000)
        then Inr (Fin (- 15), Fin (1587634977075993 / 35184372088832))
      else if p = (Fin 500000, Fin 1857000)
        then Inr (Fin (- 15), Fin (4728779608739021 / 281474976710656))
      else Inl (TypeError ''coordinates must be finite numbers''))"

definition example_toNumber :: "json \<Rightarrow> jsnum" where
  "example_toNumber v =
     (if v = JStr ''-16.861235'' then Fin (- 2373007864468949 / 140737488355328)
      else if v = JStr ''14.739877'' then Fin (2074453267646467 / 140737488355328)
      else if v = JStr ''-15.000000'' then Fin (- 15)
      else if v = JStr ''16.800000'' then Fin (4728779608739021 / 281474976710656)
      else NaN)"

definition example_rt :: runtime where
  "example_rt =
     \<lparr>proj4_transform = example_proj4,
      numToString = (\<lambda>r. ''1e+21''),
      toNumber = example_toNumber,
      clock = (\<lambda>i. ''2024-01-01T00:00:00.000Z''),
      db_insert = (\<lambda>t rows. (JNull, None))\<rparr>"

text \<open>The same runtime with the clock read later.\<close>

definition example_rt_later :: runtime where
  "example_rt_later = example_rt\<lparr>clock := (\<lambda>i. ''2025-06-30T12:00:00.000Z'')\<rparr>"

text \<open>A position, a geometry of a given type, and a feature with that geometry and no properties.\<close>

definition position :: "rat \<Rightarrow> rat \<Rightarrow> json" where
  "position x y = JArr [JNum (Fin x), JNum (Fin y)]"

definition geometry_of :: "string \<Rightarrow> json \<Rightarrow> json" where
  "geometry_of ty coords = JObj [(''type'', JStr ty), (''coordinates'', coords)]"

definition feature_of :: "string \<Rightarrow> json \<Rightarrow> json" where
  "feature_of ty coords =
     JObj [(''type'', JStr ''Feature''),
           (''geometry'', geometry_of ty coords),
           (''properties'', JObj [])]"

definition point_feature :: "rat \<Rightarrow> rat \<Rightarrow> json" where
  "point_feature x y = feature_of ''Point'' (position x y)"

definition collection_of :: "json list \<Rightarrow> json" where
  "collection_of fs = JObj [(''type'', JStr ''FeatureCollection''), (''features'', JArr fs)]"

text \<open>
  A point feature whose \<^verbatim>\<open>capacity_kg\<close> is an object with a \<^verbatim>\<open>toString\<close> that is not a
  function, as \<^verbatim>\<open>JSON.parse\<close> gives for \<^verbatim>\<open>{"toString": null}\<close>.
\<close>

definition odd_capacity_feature :: json where
  "odd_capacity_feature =
     JObj [(''type'', JStr ''Feature''),
           (''geometry'', geometry_of ''Point'' (position (- 17) 14)),
           (''properties'', JObj [(''capacity_kg'', JObj [(''toString'', JNull)])])]"

text \<open>
  The rows that a feature without properties at longitude \<open>0\<close> and latitude \<open>45\<close>, first of
  its collection, gives for a sweeping route and for a collection point.
\<close>

definition zero_route_row :: json where
  "zero_route_row =
     JObj [(''name'', JStr ([CHR 0xC3, CHR 0x89] @ ''l'' @ [CHR 0xC3, CHR 0xA9] @ ''ment 1'')),
           (''code'', JNull), (''commune_id'', JNull), (''shift'', JStr ''matin''),
           (''length_meters'', JNum (Fin 0)), (''estimated_duration_minutes'', JNum (Fin 0)),
           (''status'', JStr ''active'')]"

definition zero_point_row :: json where
  "zero_point_row =
     JObj [(''latitude'', JNum (Fin 45)), (''longitude'', JNum (Fin 0)), (''commune_id'', JNull),
           (''name'', JStr ([CHR 0xC3, CHR 0x89] @ ''l'' @ [CHR 0xC3, CHR 0xA9] @ ''ment 1'')),
           (''type'', JStr ''bin''), (''capacity_kg'', JNum (Fin 0)),
           (''waste_type'', JStr ''general''), (''status'', JStr ''active'')]"

section \<open>Properties of the detection\<close>

lemma js_ge_Fin [simp]: "js_ge (Fin a) (Fin b) \<longleftrightarrow> b \<le> a"
  by (simp add: js_ge_def)

text \<open>
  Claim C1. On a pair of finite numbers \<open>detectCoordinateSystem\<close> applies the four
  range tests in the order geographic, UTM 28N, UTM 27N, Lambert, each with inclusive
  bounds, and returns the identifier of the first test that holds; when none holds it
  warns and returns UTM 28N. A pair inside one of the four ranges, its boundary included,
  is therefore never classified by the fallback: the call emits no warning.
\<close>

theorem detectCoordinateSystem_ranges:
  fixes x y :: rat
  shows "detectCoordinateSystem (Fin x) (Fin y) =
     (if - 180 \<le> x \<and> x \<le> 180 \<and> - 90 \<le> y \<and> y \<le> 90 then (''EPSG:4326'', [])
      else if 200000 \<le> x \<and> x \<le> 800000 \<and> 1400000 \<le> y \<and> y \<le> 1900000
        then (''EPSG:32628'', [])
      else if 400000 \<le> x \<and> x \<le> 900000 \<and> 1400000 \<le> y \<and> y \<le> 1900000
        then (''EPSG:32627'', [])
      else if 200000 \<le> x \<and> x \<le> 600000 \<and> 0 \<le> y \<and> y \<le> 500000
        then (''EPSG:2147'', [])
      else (''EPSG:32628'', [WarnUndetected (Fin x) (Fin y)]))
   \<and> ((- 180 \<le> x \<and> x \<le> 180 \<and> - 90 \<le> y \<and> y \<le> 90) \<or>
       (200000 \<le> x \<and> x \<le> 800000 \<and> 1400000 \<le> y \<and> y \<le> 1900000) \<or>
       (400000 \<le> x \<and> x \<le> 900000 \<and> 1400000 \<le> y \<and> y \<le> 1900000) \<or>
       (200000 \<le> x \<and> x \<le> 600000 \<and> 0 \<le> y \<and> y \<le> 500000)
       \<longrightarrow> snd (detectCoordinateSystem (Fin x) (Fin y)) = [])"
  by (simp add: detectCoordinateSystem_def)

text \<open>The corners of the four ranges, and a pair outside all of them.\<close>

theorem detectCoordinateSystem_ranges_witness:
  "detectCoordinateSystem (Fin 180) (Fin (- 90)) = (''EPSG:4326'', []) \<and>
   detectCoordinateSystem (Fin 200000) (Fin 1400000) = (''EPSG:32628'', []) \<and>
   detectCoordinateSystem (Fin 800000) (Fin 1900000) = (''EPSG:32628'', []) \<and>
   detectCoordinateSystem (Fin 900000) (Fin 1900000) = (''EPSG:32627'', []) \<and>
   detectCoordinateSystem (Fin 200000) (Fin 0) = (''EPSG:2147'', []) \<and>
   detectCoordinateSystem (Fin 600000) (Fin 500000) = (''EPSG:2147'', []) \<and>
   detectCoordinateSystem (Fin 181) (Fin 0) =
     (''EPSG:32628'', [WarnUndetected (Fin 181) (Fin 0)])"
  using detectCoordinateSystem_ranges [of 180 "- 90"]
    detectCoordinateSystem_ranges [of 200000 1400000]
    detectCoordinateSystem_ranges [of 800000 1900000]
    detectCoordinateSystem_ranges [of 900000 1900000]
    detectCoordinateSystem_ranges [of 200000 0]
    detectCoordinateSystem_ranges [of 600000 500000]
    detectCoordinateSystem_ranges [of 181 0]
  by simp

section \<open>Properties of the conversion\<close>

lemma fixedDigits_eqI:
  assumes "of_nat n \<le> \<bar>r\<bar> * 10 ^ f + 1 / 2" and "\<bar>r\<bar> * 10 ^ f + 1 / 2 < of_nat n + 1"
  shows "fixedDigits f r = n"
proof -
  have "\<lfloor>\<bar>r\<bar> * 10 ^ f + 1 / 2\<rfloor> = int n"
    using assms by (simp add: floor_eq_iff)
  then show ?thesis
    by (simp add: fixedDigits_def)
qed

lemma detect_ids:
  "fst (detectCoordinateSystem x y) \<in> {''EPSG:4326'', ''EPSG:32628'', ''EPSG:32627'', ''EPSG:2147''}"
  by (simp add: detectCoordinateSystem_def)

lemma typeof_number: "typeof v = ''number'' \<longleftrightarrow> (\<exists>n. v = JNum n)"
  by (cases v) simp_all

lemma convertCoordinates_not_array:
  "\<not> isArray c \<Longrightarrow> convertCoordinates rt c = Inr (failure msg_invalid)"
  by (cases c) (simp_all add: convertCoordinates_def)

lemma convertCoordinates_short:
  "length cs < 2 \<Longrightarrow> convertCoordinates rt (JArr cs) = Inr (failure msg_invalid)"
  by (simp add: convertCoordinates_def)

lemma convertCoordinates_non_numeric:
  assumes "2 \<le> length cs"
    and "typeof (cs ! 0) \<noteq> ''number'' \<or> typeof (cs ! 1) \<noteq> ''number''"
  shows "convertCoordinates rt (JArr cs) = Inr (failure msg_non_numeric)"
proof -
  have "(case (cs ! 0, cs ! 1) of
          (JNum x, JNum y) \<Rightarrow>
            (case convertCoordinates_try rt x y of
               Inl e \<Rightarrow> Inr (failure (''Erreur de conversion: '' @ message e))
             | Inr r \<Rightarrow> Inr r)
        | _ \<Rightarrow> Inr (failure msg_non_numeric)) = Inr (failure msg_non_numeric)"
    using assms(2) by (cases "cs ! 0"; cases "cs ! 1") simp_all
  with assms(1) show ?thesis
    by (simp add: convertCoordinates_def)
qed

lemma convertCoordinates_numeric:
  assumes "2 \<le> length cs" and "cs ! 0 = JNum x" and "cs ! 1 = JNum y"
  shows "convertCoordinates rt (JArr cs) =
     Inr (case convertCoordinates_try rt x y of
            Inl e \<Rightarrow> failure (''Erreur de conversion: '' @ message e)
          | Inr r \<Rightarrow> r)"
  using assms by (simp add: convertCoordinates_def split: sum.splits)

lemma try_geographic:
  "fst (detectCoordinateSystem x y) = ''EPSG:4326'' \<Longrightarrow>
   convertCoordinates_try rt x y =
     Inr \<lparr>longitude = Some x, latitude = Some y, sourceSystem = Some ''EPSG:4326'',
          error = None\<rparr>"
  by (simp add: convertCoordinates_try_def)

lemma try_throws:
  "fst (detectCoordinateSystem x y) \<noteq> ''EPSG:4326'' \<Longrightarrow>
   proj4 rt (fst (detectCoordinateSystem x y)) ''EPSG:4326'' (x, y) = Inl e \<Longrightarrow>
   convertCoordinates_try rt x y = Inl e"
  by (simp add: convertCoordinates_try_def bind_exn_def)

lemma Number_js_text: "Number_js rt (JStr s) = Inr (toNumber rt (JStr s))"
  by (simp add: Number_js_def)

lemma try_projected:
  "fst (detectCoordinateSystem x y) \<noteq> ''EPSG:4326'' \<Longrightarrow>
   proj4 rt (fst (detectCoordinateSystem x y)) ''EPSG:4326'' (x, y) = Inr (lon, lat) \<Longrightarrow>
   convertCoordinates_try rt x y =
     Inr (if inSenegalBounds lon lat
          then \<lparr>longitude = Some (toNumber rt (JStr (toFixed rt 6 lon))),
                latitude = Some (toNumber rt (JStr (toFixed rt 6 lat))),
                sourceSystem = Some (fst (detectCoordinateSystem x y)), error = None\<rparr>
          else failure (msg_out_of_bounds rt lon lat))"
  by (simp add: convertCoordinates_try_def bind_exn_def Let_def Number_js_text)

lemma inSenegalBounds_iff:
  "inSenegalBounds lon lat \<longleftrightarrow>
     (\<exists>a b. lon = Fin a \<and> lat = Fin b \<and>
        - 5010254585449677 / 281474976710656 \<le> a \<and> a \<le> - 3152519739159347 / 281474976710656 \<and>
        12 \<le> b \<and> b \<le> 4728779608739021 / 281474976710656)"
  by (cases lon; cases lat)
     (simp_all add: inSenegalBounds_def js_ge_def minLon_def maxLon_def minLat_def maxLat_def)

text \<open>
  Claim C4. A pair of finite numbers inside the geographic range is returned as it is:
  success with \<open>longitude = x\<close>, \<open>latitude = y\<close> and the geographic identifier, for every
  runtime, so neither the projection, nor the rounding, nor the regional bounds take part.
\<close>

theorem convertCoordinates_geographic_identity:
  fixes x y :: rat
  assumes "- 180 \<le> x" and "x \<le> 180" and "- 90 \<le> y" and "y \<le> 90"
  shows "convertCoordinates rt (JArr (JNum (Fin x) # JNum (Fin y) # rest)) =
     Inr \<lparr>longitude = Some (Fin x), latitude = Some (Fin y),
          sourceSystem = Some ''EPSG:4326'', error = None\<rparr>"
proof -
  have "fst (detectCoordinateSystem (Fin x) (Fin y)) = ''EPSG:4326''"
    using assms by (simp add: detectCoordinateSystem_def)
  then show ?thesis
    by (simp add: convertCoordinates_numeric [of _ "Fin x" "Fin y"] try_geographic)
qed

text \<open>
  A pair far outside the regional bounds, and one with seven decimals that the rounding
  to six would change: both come back unchanged.
\<close>

theorem convertCoordinates_geographic_identity_witness:
  "convertCoordinates example_rt (JArr [JNum (Fin 100), JNum (Fin 50)]) =
     Inr \<lparr>longitude = Some (Fin 100), latitude = Some (Fin 50),
          sourceSystem = Some ''EPSG:4326'', error = None\<rparr> \<and>
   \<not> inSenegalBounds (Fin 100) (Fin 50) \<and>
   convertCoordinates example_rt (JArr [JNum (Fin (- 174471234 / 10000000)), JNum (Fin 14)]) =
     Inr \<lparr>longitude = Some (Fin (- 174471234 / 10000000)), latitude = Some (Fin 14),
          sourceSystem = Some ''EPSG:4326'', error = None\<rparr> \<and>
   roundFixed 6 (Fin (- 174471234 / 10000000)) \<noteq> Fin (- 174471234 / 10000000)"
proof -
  have "fixedDigits 6 (- 174471234 / 10000000) = 17447123"
    by (rule fixedDigits_eqI) simp_all
  then have "roundFixed 6 (Fin (- 174471234 / 10000000)) = Fin (- 17447123 / 1000000)"
    by (simp add: roundFixed_def)
  then have a: "roundFixed 6 (Fin (- 174471234 / 10000000)) \<noteq> Fin (- 174471234 / 10000000)"
    by simp
  have b: "\<not> inSenegalBounds (Fin 100) (Fin 50)"
    by (simp add: inSenegalBounds_iff)
  have c: "convertCoordinates example_rt (JArr [JNum (Fin 100), JNum (Fin 50)]) =
     Inr \<lparr>longitude = Some (Fin 100), latitude = Some (Fin 50),
          sourceSystem = Some ''EPSG:4326'', error = None\<rparr>"
    by (rule convertCoordinates_geographic_identity) simp_all
  have d: "convertCoordinates example_rt
       (JArr [JNum (Fin (- 174471234 / 10000000)), JNum (Fin 14)]) =
     Inr \<lparr>longitude = Some (Fin (- 174471234 / 10000000)), latitude = Some (Fin 14),
          sourceSystem = Some ''EPSG:4326'', error = None\<rparr>"
    by (rule convertCoordinates_geographic_identity) simp_all
  from a b c d show ?thesis
    by blast
qed

subsection \<open>The text of \<^verbatim>\<open>toFixed\<close>\<close>


lemma digit_char_0: "digit_char 0 = CHR ''0''"
  by (simp add: digit_char_def)

lemma digit_of_mod:
  fixes n :: nat
  assumes "c dvd b"
  shows "n mod (a * b) div a mod c = n div a mod c"
proof (cases "a = 0")
  case True
  then show ?thesis
    by simp
next
  case False
  have "n mod (a * b) = a * (n div a mod b) + n mod a"
    by (rule mod_mult2_eq)
  then have "n mod (a * b) div a = n div a mod b"
    using False by simp
  then show ?thesis
    using assms by (simp add: mod_mod_cancel)
qed

lemma padZeros_digits:
  "m < 10 ^ Suc f \<Longrightarrow>
   padZeros (Suc f) (digits10 m) =
     map (\<lambda>i. digit_char (m div 10 ^ (f - i) mod 10)) [0..<Suc f]"
proof (induction f arbitrary: m)
  case 0
  then show ?case
    by (simp add: padZeros_def digits10.simps [of m])
next
  case (Suc f)
  have shift: "map (\<lambda>i. digit_char (m div 10 ^ (Suc f - i) mod 10)) [0..<Suc (Suc f)] =
      map (\<lambda>i. digit_char (m div 10 div 10 ^ (f - i) mod 10)) [0..<Suc f] @
      [digit_char (m mod 10)]"
  proof -
    have "m div 10 ^ (Suc f - i) = m div 10 div 10 ^ (f - i)" if "i < Suc f" for i
    proof -
      from that have "Suc f - i = Suc (f - i)"
        by simp
      then show ?thesis
        by (simp add: div_mult2_eq)
    qed
    then have "map (\<lambda>i. digit_char (m div 10 ^ (Suc f - i) mod 10)) [0..<Suc f] =
        map (\<lambda>i. digit_char (m div 10 div 10 ^ (f - i) mod 10)) [0..<Suc f]"
      by simp
    then show ?thesis
      by simp
  qed
  show ?case
  proof (cases "m < 10")
    case True
    then have "m div 10 = 0"
      by simp
    then have "map (\<lambda>i. digit_char (m div 10 div 10 ^ (f - i) mod 10)) [0..<Suc f] =
        replicate (Suc f) (CHR ''0'')"
      by (simp add: digit_char_0 map_replicate_const del: upt_Suc)
    with True show ?thesis
      unfolding shift by (simp add: padZeros_def digits10.simps [of m])
  next
    case False
    from Suc.prems have small: "m div 10 < 10 ^ Suc f"
      by simp
    have "padZeros (Suc (Suc f)) (digits10 m) =
        padZeros (Suc f) (digits10 (m div 10)) @ [digit_char (m mod 10)]"
      using False by (simp add: padZeros_def digits10.simps [of m])
    then show ?thesis
      unfolding shift by (simp only: Suc.IH [OF small])
  qed
qed

lemma toFixed_two:
  assumes "\<bar>r\<bar> < 10 ^ 21"
  shows "toFixed rt 2 (Fin r) =
     (if r < 0 then ''-'' else []) @ digits10 (fixedDigits 2 r div 100) @ ''.'' @
     [digit_char (fixedDigits 2 r div 10 mod 10), digit_char (fixedDigits 2 r mod 10)]"
proof -
  define n where "n = fixedDigits 2 r"
  have "padZeros (Suc 1) (digits10 (n mod 100)) =
      map (\<lambda>i. digit_char (n mod 100 div 10 ^ (1 - i) mod 10)) [0..<Suc 1]"
    by (rule padZeros_digits) simp
  moreover have "n mod 100 div 10 mod 10 = n div 10 mod 10"
    using digit_of_mod [of 10 10 n 10] by simp
  moreover have "n mod 100 mod 10 = n mod 10"
    by (simp add: mod_mod_cancel)
  ultimately have "padZeros 2 (digits10 (n mod 100)) =
      [digit_char (n div 10 mod 10), digit_char (n mod 10)]"
    by (simp add: numeral_2_eq_2)
  with assms show ?thesis
    by (simp add: toFixed_def Let_def n_def)
qed

lemma toFixed_six:
  assumes "\<bar>r\<bar> < 10 ^ 21"
  shows "toFixed rt 6 (Fin r) =
     (if r < 0 then ''-'' else []) @ digits10 (fixedDigits 6 r div 1000000) @ ''.'' @
     [digit_char (fixedDigits 6 r div 100000 mod 10),
      digit_char (fixedDigits 6 r div 10000 mod 10),
      digit_char (fixedDigits 6 r div 1000 mod 10),
      digit_char (fixedDigits 6 r div 100 mod 10),
      digit_char (fixedDigits 6 r div 10 mod 10),
      digit_char (fixedDigits 6 r mod 10)]"
proof -
  define n where "n = fixedDigits 6 r"
  have "padZeros (Suc 5) (digits10 (n mod 1000000)) =
      map (\<lambda>i. digit_char (n mod 1000000 div 10 ^ (5 - i) mod 10)) [0..<Suc 5]"
    by (rule padZeros_digits) simp
  moreover have "[0..<Suc 5] = [0, 1, 2, 3, 4, 5]"
    by (simp add: upt_rec)
  moreover have "n mod 1000000 div 100000 mod 10 = n div 100000 mod 10"
    using digit_of_mod [of 10 10 n 100000] by simp
  moreover have "n mod 1000000 div 10000 mod 10 = n div 10000 mod 10"
    using digit_of_mod [of 10 100 n 10000] by simp
  moreover have "n mod 1000000 div 1000 mod 10 = n div 1000 mod 10"
    using digit_of_mod [of 10 1000 n 1000] by simp
  moreover have "n mod 1000000 div 100 mod 10 = n div 100 mod 10"
    using digit_of_mod [of 10 10000 n 100] by simp
  moreover have "n mod 1000000 div 10 mod 10 = n div 10 mod 10"
    using digit_of_mod [of 10 100000 n 10] by simp
  moreover have "n mod 1000000 mod 10 = n mod 10"
    by (simp add: mod_mod_cancel)
  ultimately have "padZeros 6 (digits10 (n mod 1000000)) =
      [digit_char (n div 100000 mod 10), digit_char (n div 10000 mod 10),
       digit_char (n div 1000 mod 10), digit_char (n div 100 mod 10),
       digit_char (n div 10 mod 10), digit_char (n mod 10)]"
    by simp
  with assms show ?thesis
    by (simp add: toFixed_def Let_def n_def)
qed

text \<open>The example runtime at its three points, and the texts of the numbers it returns.\<close>

lemma example_detect:
  "fst (detectCoordinateSystem (Fin 300000) (Fin 1630000)) = ''EPSG:32628''"
  "fst (detectCoordinateSystem (Fin 500000) (Fin 5000000)) = ''EPSG:32628''"
  "fst (detectCoordinateSystem (Fin 500000) (Fin 1857000)) = ''EPSG:32628''"
  "fst (detectCoordinateSystem (Fin 1) NaN) = ''EPSG:32628''"
  by (simp_all add: detectCoordinateSystem_def js_ge_def)

lemma example_proj4_values:
  "proj4 example_rt ''EPSG:32628'' ''EPSG:4326'' (Fin 300000, Fin 1630000) =
     Inr (Fin (- 4746015607256265 / 281474976710656), Fin (4148906406687017 / 281474976710656))"
  "proj4 example_rt ''EPSG:32628'' ''EPSG:4326'' (Fin 500000, Fin 5000000) =
     Inr (Fin (- 15), Fin (1587634977075993 / 35184372088832))"
  "proj4 example_rt ''EPSG:32628'' ''EPSG:4326'' (Fin 500000, Fin 1857000) =
     Inr (Fin (- 15), Fin (4728779608739021 / 281474976710656))"
  "proj4 example_rt ''EPSG:32628'' ''EPSG:4326'' (Fin 1, NaN) =
     Inl (TypeError ''coordinates must be finite numbers'')"
  by (simp_all add: proj4_def example_rt_def example_proj4_def)

lemma example_fixedDigits:
  "fixedDigits 6 (- 4746015607256265 / 281474976710656) = 16861235"
  "fixedDigits 6 (4148906406687017 / 281474976710656) = 14739877"
  "fixedDigits 6 (- 15) = 15000000"
  "fixedDigits 6 (4728779608739021 / 281474976710656) = 16800000"
  "fixedDigits 2 (- 15) = 1500"
  "fixedDigits 2 (1587634977075993 / 35184372088832) = 4512"
  by (rule fixedDigits_eqI; simp)+

lemma example_toFixed:
  "toFixed rt 6 (Fin (- 4746015607256265 / 281474976710656)) = ''-16.861235''"
  "toFixed rt 6 (Fin (4148906406687017 / 281474976710656)) = ''14.739877''"
  "toFixed rt 6 (Fin (- 15)) = ''-15.000000''"
  "toFixed rt 6 (Fin (4728779608739021 / 281474976710656)) = ''16.800000''"
  "toFixed rt 2 (Fin (- 15)) = ''-15.00''"
  "toFixed rt 2 (Fin (1587634977075993 / 35184372088832)) = ''45.12''"
  by (simp_all add: toFixed_six toFixed_two example_fixedDigits [simplified] digits10.simps
      digit_char_def)

lemma example_toNumber_values:
  "toNumber example_rt (JStr ''-16.861235'') = Fin (- 2373007864468949 / 140737488355328)"
  "toNumber example_rt (JStr ''14.739877'') = Fin (2074453267646467 / 140737488355328)"
  "toNumber example_rt (JStr ''-15.000000'') = Fin (- 15)"
  "toNumber example_rt (JStr ''16.800000'') = Fin (4728779608739021 / 281474976710656)"
  by (simp_all add: example_rt_def example_toNumber_def)

lemma example_bounds:
  "inSenegalBounds (Fin (- 4746015607256265 / 281474976710656))
     (Fin (4148906406687017 / 281474976710656))"
  "\<not> inSenegalBounds (Fin (- 15)) (Fin (1587634977075993 / 35184372088832))"
  "inSenegalBounds (Fin (- 15)) (Fin (4728779608739021 / 281474976710656))"
  by (simp_all add: inSenegalBounds_def js_ge_def minLon_def maxLon_def minLat_def maxLat_def)

text \<open>
  Claim C2. \<open>convertCoordinates\<close> returns on every input and every runtime, and what it
  returns is either a success (longitude, latitude and source system present, no error)
  or a failure (longitude and latitude \<^verbatim>\<open>null\<close>, an error message, no source system),
  never both and never neither. It is a failure exactly when the input is not an array,
  or has fewer than two elements, or its first or second element is not a number, or the
  pair is not geographic and the projection throws or lands outside the regional bounds
  (the doubles written \<^verbatim>\<open>-17.8\<close>, \<^verbatim>\<open>-11.2\<close>, \<^verbatim>\<open>12.0\<close> and \<^verbatim>\<open>16.8\<close>). The failure is then, in
  this order, the text on invalid coordinates twice, the text on coordinates that are not
  numbers, the text \<^verbatim>\<open>Erreur de conversion: \<close> followed by the message of the exception,
  and the text on the bounds followed by both numbers with two decimals; the first three
  do not depend on the runtime. The accented letters of the texts are written as their
  UTF-8 bytes.
\<close>

theorem convertCoordinates_total:
  "\<exists>r. convertCoordinates rt c = Inr r \<and>
     ((longitude r \<noteq> None \<and> latitude r \<noteq> None \<and> sourceSystem r \<noteq> None \<and> error r = None) \<noteq>
      (longitude r = None \<and> latitude r = None \<and> sourceSystem r = None \<and> error r \<noteq> None)) \<and>
     ((longitude r = None \<and> latitude r = None \<and> error r \<noteq> None) \<longleftrightarrow>
        (\<not> isArray c \<or>
         (\<exists>cs. c = JArr cs \<and>
            (length cs < 2 \<or>
             (2 \<le> length cs \<and>
                (typeof (cs ! 0) \<noteq> ''number'' \<or> typeof (cs ! 1) \<noteq> ''number'')) \<or>
             (\<exists>x y. 2 \<le> length cs \<and> cs ! 0 = JNum x \<and> cs ! 1 = JNum y \<and>
                fst (detectCoordinateSystem x y) \<noteq> ''EPSG:4326'' \<and>
                ((\<exists>e. proj4 rt (fst (detectCoordinateSystem x y)) ''EPSG:4326'' (x, y) = Inl e) \<or>
                 (\<exists>lon lat.
                    proj4 rt (fst (detectCoordinateSystem x y)) ''EPSG:4326'' (x, y) =
                      Inr (lon, lat) \<and>
                    \<not> (\<exists>a b. lon = Fin a \<and> lat = Fin b \<and>
                         - 5010254585449677 / 281474976710656 \<le> a \<and>
                         a \<le> - 3152519739159347 / 281474976710656 \<and>
                         12 \<le> b \<and> b \<le> 4728779608739021 / 281474976710656)))))))) \<and>
     (\<not> isArray c \<longrightarrow>
        r = \<lparr>longitude = None, latitude = None, sourceSystem = None,
             error = Some (''Coordonn'' @ [CHR 0xC3, CHR 0xA9] @ ''es invalides'')\<rparr>) \<and>
     (\<forall>cs. c = JArr cs \<and> length cs < 2 \<longrightarrow>
        r = \<lparr>longitude = None, latitude = None, sourceSystem = None,
             error = Some (''Coordonn'' @ [CHR 0xC3, CHR 0xA9] @ ''es invalides'')\<rparr>) \<and>
     (\<forall>cs. c = JArr cs \<and> 2 \<le> length cs \<and>
           (typeof (cs ! 0) \<noteq> ''number'' \<or> typeof (cs ! 1) \<noteq> ''number'')
        \<longrightarrow> r = \<lparr>longitude = None, latitude = None, sourceSystem = None,
                 error = Some (''Coordonn'' @ [CHR 0xC3, CHR 0xA9] @ ''es non num'' @
                   [CHR 0xC3, CHR 0xA9] @ ''riques'')\<rparr>) \<and>
     (\<forall>cs x y e m. c = JArr cs \<and> 2 \<le> length cs \<and> cs ! 0 = JNum x \<and> cs ! 1 = JNum y \<and>
           fst (detectCoordinateSystem x y) \<noteq> ''EPSG:4326'' \<and>
           proj4 rt (fst (detectCoordinateSystem x y)) ''EPSG:4326'' (x, y) = Inl e \<and>
           (e = TypeError m \<or> e = Error m)
        \<longrightarrow> r = \<lparr>longitude = None, latitude = None, sourceSystem = None,
                 error = Some (''Erreur de conversion: '' @ m)\<rparr>) \<and>
     (\<forall>cs x y lon lat. c = JArr cs \<and> 2 \<le> length cs \<and> cs ! 0 = JNum x \<and> cs ! 1 = JNum y \<and>
           fst (detectCoordinateSystem x y) \<noteq> ''EPSG:4326'' \<and>
           proj4 rt (fst (detectCoordinateSystem x y)) ''EPSG:4326'' (x, y) = Inr (lon, lat) \<and>
           \<not> (\<exists>a b. lon = Fin a \<and> lat = Fin b \<and>
                - 5010254585449677 / 281474976710656 \<le> a \<and>
                a \<le> - 3152519739159347 / 281474976710656 \<and>
                12 \<le> b \<and> b \<le> 4728779608739021 / 281474976710656)
        \<longrightarrow> r = \<lparr>longitude = None, latitude = None, sourceSystem = None,
                 error = Some (''Coordonn'' @ [CHR 0xC3, CHR 0xA9] @
                   ''es converties hors limites du S'' @ [CHR 0xC3, CHR 0xA9] @ ''n'' @
                   [CHR 0xC3, CHR 0xA9] @ ''gal: ['' @
                   toFixed rt 2 lon @ '', '' @ toFixed rt 2 lat @ '']'')\<rparr>)"
proof (cases "isArray c")
  case False
  then have "convertCoordinates rt c = Inr (failure msg_invalid)"
    by (rule convertCoordinates_not_array)
  moreover have "\<And>cs. c \<noteq> JArr cs"
    using False by auto
  ultimately show ?thesis
    using False unfolding inSenegalBounds_iff [symmetric]
    by (simp add: failure_def msg_invalid_def e_acute_def)
next
  case True
  then obtain cs where c: "c = JArr cs"
    by (cases c) simp_all
  show ?thesis
  proof (cases "length cs < 2")
    case True
    then show ?thesis
      unfolding inSenegalBounds_iff [symmetric]
      by (simp add: c convertCoordinates_short failure_def msg_invalid_def e_acute_def)
  next
    case long: False
    show ?thesis
    proof (cases "typeof (cs ! 0) \<noteq> ''number'' \<or> typeof (cs ! 1) \<noteq> ''number''")
      case True
      have "convertCoordinates rt c = Inr (failure msg_non_numeric)"
        using long True by (simp add: c convertCoordinates_non_numeric)
      moreover have "\<not> (\<exists>x y. cs ! 0 = JNum x \<and> cs ! 1 = JNum y)"
        using True by (auto simp: typeof_number)
      ultimately show ?thesis
        using long True unfolding inSenegalBounds_iff [symmetric]
        by (auto simp: c failure_def msg_non_numeric_def e_acute_def)
    next
      case False
      then obtain x y where xy: "cs ! 0 = JNum x" "cs ! Suc 0 = JNum y"
        by (auto simp: typeof_number)
      have cc: "convertCoordinates rt (JArr cs) =
         Inr (case convertCoordinates_try rt x y of
                Inl e \<Rightarrow> failure (''Erreur de conversion: '' @ message e)
              | Inr r \<Rightarrow> r)"
        using long xy by (simp add: convertCoordinates_numeric)
      show ?thesis
      proof (cases "fst (detectCoordinateSystem x y) = ''EPSG:4326''")
        case True
        then show ?thesis
          using long unfolding inSenegalBounds_iff [symmetric]
          by (simp add: c cc xy try_geographic)
      next
        case proj: False
        show ?thesis
        proof (cases "proj4 rt (fst (detectCoordinateSystem x y)) ''EPSG:4326'' (x, y)")
          case (Inl e)
          then show ?thesis
            using long proj unfolding inSenegalBounds_iff [symmetric]
            by (cases e) (simp_all add: c cc xy try_throws failure_def)
        next
          case (Inr p)
          then obtain lon lat where
            p: "proj4 rt (fst (detectCoordinateSystem x y)) ''EPSG:4326'' (x, y) = Inr (lon, lat)"
            by (cases p) simp
          show ?thesis
            using long proj unfolding inSenegalBounds_iff [symmetric]
            by (simp add: c cc xy p try_projected [OF proj p] failure_def
                msg_out_of_bounds_def e_acute_def)
        qed
      qed
    qed
  qed
qed

text \<open>
  One input for each way of failing, with the text of each failure, and one success.
\<close>

theorem convertCoordinates_total_witness:
  "convertCoordinates example_rt (JStr ''abc'') =
     Inr \<lparr>longitude = None, latitude = None, sourceSystem = None,
          error = Some (''Coordonn'' @ [CHR 0xC3, CHR 0xA9] @ ''es invalides'')\<rparr> \<and>
   convertCoordinates example_rt (JArr [JNum (Fin 1)]) =
     Inr \<lparr>longitude = None, latitude = None, sourceSystem = None,
          error = Some (''Coordonn'' @ [CHR 0xC3, CHR 0xA9] @ ''es invalides'')\<rparr> \<and>
   convertCoordinates example_rt (JArr [JStr ''1'', JNum (Fin 2)]) =
     Inr \<lparr>longitude = None, latitude = None, sourceSystem = None,
          error = Some (''Coordonn'' @ [CHR 0xC3, CHR 0xA9] @ ''es non num'' @
            [CHR 0xC3, CHR 0xA9] @ ''riques'')\<rparr> \<and>
   convertCoordinates example_rt (JArr [JNum (Fin 1), JNum NaN]) =
     Inr \<lparr>longitude = None, latitude = None, sourceSystem = None,
          error = Some ''Erreur de conversion: coordinates must be finite numbers''\<rparr> \<and>
   convertCoordinates example_rt (JArr [JNum (Fin 500000), JNum (Fin 5000000)]) =
     Inr \<lparr>longitude = None, latitude = None, sourceSystem = None,
          error = Some (''Coordonn'' @ [CHR 0xC3, CHR 0xA9] @
            ''es converties hors limites du S'' @ [CHR 0xC3, CHR 0xA9] @ ''n'' @
            [CHR 0xC3, CHR 0xA9] @ ''gal: [-15.00, 45.12]'')\<rparr> \<and>
   (\<exists>r. convertCoordinates example_rt (JArr [JNum (Fin 300000), JNum (Fin 1630000)]) = Inr r \<and>
        longitude r \<noteq> None \<and> latitude r \<noteq> None \<and> sourceSystem r \<noteq> None \<and> error r = None)"
proof -
  have a: "convertCoordinates example_rt (JStr ''abc'') =
     Inr \<lparr>longitude = None, latitude = None, sourceSystem = None,
          error = Some (''Coordonn'' @ [CHR 0xC3, CHR 0xA9] @ ''es invalides'')\<rparr>"
    using convertCoordinates_total [of example_rt "JStr ''abc''"] by simp
  have b: "convertCoordinates example_rt (JArr [JNum (Fin 1)]) =
     Inr \<lparr>longitude = None, latitude = None, sourceSystem = None,
          error = Some (''Coordonn'' @ [CHR 0xC3, CHR 0xA9] @ ''es invalides'')\<rparr>"
    using convertCoordinates_total [of example_rt "JArr [JNum (Fin 1)]"] by simp
  have c: "convertCoordinates example_rt (JArr [JStr ''1'', JNum (Fin 2)]) =
     Inr \<lparr>longitude = None, latitude = None, sourceSystem = None,
          error = Some (''Coordonn'' @ [CHR 0xC3, CHR 0xA9] @ ''es non num'' @
            [CHR 0xC3, CHR 0xA9] @ ''riques'')\<rparr>"
    using convertCoordinates_total [of example_rt "JArr [JStr ''1'', JNum (Fin 2)]"] by simp
  have d: "convertCoordinates example_rt (JArr [JNum (Fin 1), JNum NaN]) =
     Inr \<lparr>longitude = None, latitude = None, sourceSystem = None,
          error = Some ''Erreur de conversion: coordinates must be finite numbers''\<rparr>"
    using convertCoordinates_total [of example_rt "JArr [JNum (Fin 1), JNum NaN]"]
    by (simp add: example_detect example_proj4_values)
  have e: "convertCoordinates example_rt (JArr [JNum (Fin 500000), JNum (Fin 5000000)]) =
     Inr \<lparr>longitude = None, latitude = None, sourceSystem = None,
          error = Some (''Coordonn'' @ [CHR 0xC3, CHR 0xA9] @
            ''es converties hors limites du S'' @ [CHR 0xC3, CHR 0xA9] @ ''n'' @
            [CHR 0xC3, CHR 0xA9] @ ''gal: [-15.00, 45.12]'')\<rparr>"
    using convertCoordinates_total [of example_rt "JArr [JNum (Fin 500000), JNum (Fin 5000000)]"]
    by (simp add: example_detect example_proj4_values example_toFixed)
  have f: "\<exists>r. convertCoordinates example_rt (JArr [JNum (Fin 300000), JNum (Fin 1630000)]) =
        Inr r \<and>
      longitude r \<noteq> None \<and> latitude r \<noteq> None \<and> sourceSystem r \<noteq> None \<and> error r = None"
    using convertCoordinates_total
      [of example_rt "JArr [JNum (Fin 300000), JNum (Fin 1630000)]",
        unfolded inSenegalBounds_iff [symmetric]] example_bounds(1)
    by (simp add: example_detect example_proj4_values) auto
  from a b c d e f show ?thesis
    by blast
qed



section \<open>Properties of the extraction\<close>



lemma getProp_Inr: "\<not> nullish v \<Longrightarrow> getProp v k = Inr (optGet v k)"
  by (simp add: getProp_def optGet_def)








section \<open>Properties of the batch mapper\<close>

lemma try_cases:
  assumes "convertCoordinates_try rt x y = Inr r"
  shows "(\<exists>m. r = failure m) \<or>
     (\<exists>lo la. r = \<lparr>longitude = Some lo, latitude = Some la,
        sourceSystem = Some (fst (detectCoordinateSystem x y)), error = None\<rparr>)"
proof (cases "fst (detectCoordinateSystem x y) = ''EPSG:4326''")
  case True
  with assms show ?thesis
    by (auto simp: try_geographic)
next
  case False
  show ?thesis
  proof (cases "proj4 rt (fst (detectCoordinateSystem x y)) ''EPSG:4326'' (x, y)")
    case (Inl e)
    with assms False show ?thesis
      by (simp add: try_throws)
  next
    case (Inr p)
    obtain lon lat where "p = (lon, lat)"
      by (cases p)
    with assms False Inr show ?thesis
      by (auto simp: try_projected split: if_splits)
  qed
qed

lemma convertCoordinates_cases:
  assumes "convertCoordinates rt c = Inr r"
  shows "(\<exists>m. r = failure m) \<or>
     (\<exists>lo la s. s \<in> {''EPSG:4326'', ''EPSG:32628'', ''EPSG:32627'', ''EPSG:2147''} \<and>
        r = \<lparr>longitude = Some lo, latitude = Some la, sourceSystem = Some s, error = None\<rparr>)"
proof (cases "isArray c")
  case False
  with assms show ?thesis
    by (auto simp: convertCoordinates_not_array)
next
  case True
  then obtain cs where c: "c = JArr cs"
    by (cases c) simp_all
  show ?thesis
  proof (cases "length cs < 2")
    case True
    with assms show ?thesis
      by (auto simp: c convertCoordinates_short)
  next
    case long: False
    show ?thesis
    proof (cases "typeof (cs ! 0) \<noteq> ''number'' \<or> typeof (cs ! 1) \<noteq> ''number''")
      case True
      with assms long show ?thesis
        by (auto simp: c convertCoordinates_non_numeric)
    next
      case False
      then obtain x y where xy: "cs ! 0 = JNum x" "cs ! 1 = JNum y"
        by (auto simp: typeof_number)
      have cc: "convertCoordinates rt (JArr cs) =
         Inr (case convertCoordinates_try rt x y of
                Inl e \<Rightarrow> failure (''Erreur de conversion: '' @ message e)
              | Inr r \<Rightarrow> r)"
        using long xy by (simp add: convertCoordinates_numeric)
      show ?thesis
      proof (cases "convertCoordinates_try rt x y")
        case (Inl e)
        with assms cc show ?thesis
          by (auto simp: c)
      next
        case (Inr r')
        with assms cc have "r = r'"
          by (simp add: c)
        with try_cases [OF Inr] detect_ids [of x y] show ?thesis
          by blast
      qed
    qed
  qed
qed

lemma convertCoordinates_never_raises: "convertCoordinates rt c \<noteq> Inl e"
  by (cases "isArray c"; cases c)
     (auto simp: convertCoordinates_def split: sum.splits json.splits prod.splits)

lemma numberOr0_cases:
  "(\<exists>n. numberOr0 rt v = Inr (JNum n)) \<or> numberOr0 rt v = Inl (TypeError msg_unconvertible)"
  by (cases v) (simp_all add: numberOr0_def Number_js_def bind_exn_def jor_def)

lemma buildRow_not_null: "buildRow rt tbl props i lon lat \<noteq> Inr JNull"
proof (cases tbl)
  case Sweeping_routes
  then show ?thesis
    using numberOr0_cases [of rt "any_of (optGet props ''length_meters'')
        [optGet props ''longueur_m'', optGet props ''LENGTH_METERS'', optGet props ''LONGUEUR_M'']"]
      numberOr0_cases [of rt "any_of (optGet props ''estimated_duration_minutes'')
        [optGet props ''duree_estimee_min'', optGet props ''ESTIMATED_DURATION'',
         optGet props ''DUREE_ESTIMEE'']"]
    by (auto simp: buildRow_def bind_exn_def)
qed (auto simp: buildRow_def bind_exn_def split: sum.splits)

text \<open>
  An input that passes the four checks: a non-null object whose \<^verbatim>\<open>type\<close> is
  \<^verbatim>\<open>"FeatureCollection"\<close> and whose \<^verbatim>\<open>features\<close> is a non-empty array.
\<close>

lemma prepareRows_valid:
  assumes "typeof g = ''object''" and "g \<noteq> JNull"
    and "optGet g ''type'' = JStr ''FeatureCollection''"
    and "optGet g ''features'' = JArr fs" and "fs \<noteq> []"
  shows "prepareRows rt g tbl =
     (let r = mapFeatures rt tbl fs 0
                \<lparr>total_stat = length fs, success = 0, failed = 0, systems = []\<rparr>;
          toInsert = filter (\<lambda>item. item \<noteq> JNull) (fst r)
      in if toInsert = [] then Inl (Error err_none_valid) else Inr (toInsert, snd r))"
proof -
  from assms(1,2) have "truthy g" and "\<not> nullish g"
    by (cases g; simp)+
  with assms show ?thesis
    by (simp add: prepareRows_def getProp_Inr bind_exn_def Let_def case_prod_unfold)
qed

lemma prepareRows_errors:
  "\<not> (typeof g = ''object'' \<and> g \<noteq> JNull) \<Longrightarrow>
     prepareRows rt g tbl = Inl (Error err_not_object)"
  "typeof g = ''object'' \<Longrightarrow> g \<noteq> JNull \<Longrightarrow>
   optGet g ''type'' \<noteq> JStr ''FeatureCollection'' \<Longrightarrow>
     prepareRows rt g tbl = Inl (Error err_not_collection)"
  "typeof g = ''object'' \<Longrightarrow> g \<noteq> JNull \<Longrightarrow>
   optGet g ''type'' = JStr ''FeatureCollection'' \<Longrightarrow> \<not> isArray (optGet g ''features'') \<Longrightarrow>
     prepareRows rt g tbl = Inl (Error err_no_features)"
  "typeof g = ''object'' \<Longrightarrow> g \<noteq> JNull \<Longrightarrow>
   optGet g ''type'' = JStr ''FeatureCollection'' \<Longrightarrow> optGet g ''features'' = JArr [] \<Longrightarrow>
     prepareRows rt g tbl = Inl (Error err_empty)"
proof -
  show "prepareRows rt g tbl = Inl (Error err_not_object)"
    if "\<not> (typeof g = ''object'' \<and> g \<noteq> JNull)"
    using that by (cases g) (simp_all add: prepareRows_def)
  assume "typeof g = ''object''" and "g \<noteq> JNull"
  then have g: "truthy g" "\<not> nullish g"
    by (cases g; simp)+
  show "prepareRows rt g tbl = Inl (Error err_not_collection)"
    if "optGet g ''type'' \<noteq> JStr ''FeatureCollection''"
    using that g \<open>typeof g = ''object''\<close>
    by (simp add: prepareRows_def getProp_Inr bind_exn_def)
  assume t: "optGet g ''type'' = JStr ''FeatureCollection''"
  show "prepareRows rt g tbl = Inl (Error err_no_features)"
    if "\<not> isArray (optGet g ''features'')"
    using that g t \<open>typeof g = ''object''\<close>
    by (cases "optGet g ''features''")
       (simp_all add: prepareRows_def getProp_Inr bind_exn_def)
  show "prepareRows rt g tbl = Inl (Error err_empty)"
    if "optGet g ''features'' = JArr []"
    using that g t \<open>typeof g = ''object''\<close>
    by (simp add: prepareRows_def getProp_Inr bind_exn_def)
qed

text \<open>The callback on particular features.\<close>

lemma mapFeature_nullish:
  "nullish f \<Longrightarrow> mapFeature rt tbl f i st = (JNull, st\<lparr>failed := failed st + 1\<rparr>)"
  by (simp add: mapFeature_def mapFeature_try_def getProp_def)

lemma mapFeature_exception:
  "getProp f ''geometry'' = Inl e \<Longrightarrow>
   mapFeature rt tbl f i st = (JNull, st\<lparr>failed := failed st + 1\<rparr>)"
  by (simp add: mapFeature_def mapFeature_try_def)

lemma mapFeature_extract_throws:
  "getProp f ''geometry'' = Inr geometry \<Longrightarrow> extractCoordinates geometry = Inl e \<Longrightarrow>
   mapFeature rt tbl f i st = (JNull, st\<lparr>failed := failed st + 1\<rparr>)"
  by (simp add: mapFeature_def mapFeature_try_def)

lemma mapFeature_no_coordinates:
  "getProp f ''geometry'' = Inr geometry \<Longrightarrow> extractCoordinates geometry = Inr c \<Longrightarrow>
   \<not> truthy c \<Longrightarrow> mapFeature rt tbl f i st = (JNull, st\<lparr>failed := failed st + 1\<rparr>)"
  by (simp add: mapFeature_def mapFeature_try_def)

lemma mapFeature_conversion_failure:
  "getProp f ''geometry'' = Inr geometry \<Longrightarrow> extractCoordinates geometry = Inr c \<Longrightarrow>
   truthy c \<Longrightarrow> convertCoordinates rt c = Inr r \<Longrightarrow> longitude r = None \<or> latitude r = None \<Longrightarrow>
   mapFeature rt tbl f i st = (JNull, st\<lparr>failed := failed st + 1\<rparr>)"
  by (auto simp: mapFeature_def mapFeature_try_def split: option.splits)

lemma mapFeature_success:
  assumes "getProp f ''geometry'' = Inr geometry" and "extractCoordinates geometry = Inr c"
    and "truthy c"
    and "convertCoordinates rt c =
      Inr \<lparr>longitude = Some lon, latitude = Some lat, sourceSystem = Some s, error = None\<rparr>"
    and "s \<noteq> []"
  shows "mapFeature rt tbl f i st =
     (case buildRow rt tbl (optGet f ''properties'') i lon lat of
        Inl e \<Rightarrow>
          (JNull, st\<lparr>success := success st + 1, systems := bumpSystem s (systems st),
                     failed := failed st + 1\<rparr>)
      | Inr row \<Rightarrow>
          (row, st\<lparr>success := success st + 1, systems := bumpSystem s (systems st)\<rparr>))"
proof -
  from assms(1) have "\<not> nullish f"
    by (auto simp: getProp_def split: if_splits)
  with assms show ?thesis
    by (cases "buildRow rt tbl (optGet f ''properties'') i lon lat")
       (simp_all add: mapFeature_def mapFeature_try_def getProp_Inr Let_def)
qed

lemma feature_of_geometry:
  "getProp (feature_of ty coords) ''geometry'' = Inr (geometry_of ty coords)"
  "optGet (feature_of ty coords) ''properties'' = JObj []"
  by (simp_all add: feature_of_def getProp_def optGet_def)

lemma extract_point: "extractCoordinates (geometry_of ''Point'' (position x y)) = Inr (position x y)"
  by (simp add: extractCoordinates_def geometry_of_def position_def getProp_def bind_exn_def)

lemma convert_geographic:
  fixes x y :: rat
  assumes "- 180 \<le> x" and "x \<le> 180" and "- 90 \<le> y" and "y \<le> 90"
  shows "convertCoordinates rt (position x y) =
     Inr \<lparr>longitude = Some (Fin x), latitude = Some (Fin y),
          sourceSystem = Some ''EPSG:4326'', error = None\<rparr>"
proof -
  have "fst (detectCoordinateSystem (Fin x) (Fin y)) = ''EPSG:4326''"
    using assms by (simp add: detectCoordinateSystem_def)
  then show ?thesis
    by (simp add: position_def convertCoordinates_numeric [of _ "Fin x" "Fin y"] try_geographic)
qed

text \<open>The rows of a feature without properties.\<close>

lemma numberOr0_undefined: "numberOr0 rt JUndefined = Inr (JNum (Fin 0))"
  by (simp add: numberOr0_def Number_js_def bind_exn_def jor_def)

lemma any_of_undefined: "any_of JUndefined [] = JUndefined"
  "any_of JUndefined (v # vs) = any_of v vs"
  by (simp_all add: any_of_def jor_def)

lemma any_of_text: "s \<noteq> [] \<Longrightarrow> any_of (JStr s) vs = JStr s"
  by (induction vs) (simp_all add: any_of_def jor_def)

lemma any_of_null: "any_of JNull [] = JNull"
  by (simp add: any_of_def)

lemma buildRow_no_properties:
  "buildRow rt Collection_points (JObj []) i lon lat =
     Inr (JObj [(''latitude'', JNum lat), (''longitude'', JNum lon), (''commune_id'', JNull),
       (''name'', JStr ([CHR 0xC3, CHR 0x89] @ ''l'' @ [CHR 0xC3, CHR 0xA9] @ ''ment '' @
          digits10 (i + 1))),
       (''type'', JStr ''bin''), (''capacity_kg'', JNum (Fin 0)),
       (''waste_type'', JStr ''general''), (''status'', JStr ''active'')])"
  "buildRow rt Urban_furniture (JObj []) i lon lat =
     Inr (JObj [(''latitude'', JNum lat), (''longitude'', JNum lon), (''commune_id'', JNull),
       (''type'', JStr ''PRN''),
       (''name'', JStr ([CHR 0xC3, CHR 0x89] @ ''l'' @ [CHR 0xC3, CHR 0xA9] @ ''ment '' @
          digits10 (i + 1))),
       (''location'', JStr []), (''install_date'', JStr (clock rt i)),
       (''last_maintenance_date'', JNull), (''capacity_kg'', JNum (Fin 0)),
       (''status'', JStr ''good'')])"
  "buildRow rt Sweeping_routes (JObj []) i lon lat =
     Inr (JObj ([(''name'', JStr ([CHR 0xC3, CHR 0x89] @ ''l'' @ [CHR 0xC3, CHR 0xA9] @
          ''ment '' @ digits10 (i + 1))),
       (''code'', JNull), (''commune_id'', JNull), (''shift'', JStr ''matin''),
       (''length_meters'', JNum (Fin 0)), (''estimated_duration_minutes'', JNum (Fin 0)),
       (''status'', JStr ''active'')] @
       (if truthy (JNum lon) \<and> truthy (JNum lat)
          then [(''latitude'', JNum lat), (''longitude'', JNum lon)] else [])))"
proof -
  have u: "optGet (JObj []) k = JUndefined" for k
    by (simp add: optGet_def)
  show "buildRow rt Collection_points (JObj []) i lon lat =
     Inr (JObj [(''latitude'', JNum lat), (''longitude'', JNum lon), (''commune_id'', JNull),
       (''name'', JStr ([CHR 0xC3, CHR 0x89] @ ''l'' @ [CHR 0xC3, CHR 0xA9] @ ''ment '' @
          digits10 (i + 1))),
       (''type'', JStr ''bin''), (''capacity_kg'', JNum (Fin 0)),
       (''waste_type'', JStr ''general''), (''status'', JStr ''active'')])"
    by (simp add: buildRow_def capacity_kg_def baseData_def getName_def getStatus_def u
        any_of_undefined any_of_text any_of_null numberOr0_undefined bind_exn_def jor_def
        E_acute_def e_acute_def)
  show "buildRow rt Urban_furniture (JObj []) i lon lat =
     Inr (JObj [(''latitude'', JNum lat), (''longitude'', JNum lon), (''commune_id'', JNull),
       (''type'', JStr ''PRN''),
       (''name'', JStr ([CHR 0xC3, CHR 0x89] @ ''l'' @ [CHR 0xC3, CHR 0xA9] @ ''ment '' @
          digits10 (i + 1))),
       (''location'', JStr []), (''install_date'', JStr (clock rt i)),
       (''last_maintenance_date'', JNull), (''capacity_kg'', JNum (Fin 0)),
       (''status'', JStr ''good'')])"
    by (simp add: buildRow_def capacity_kg_def baseData_def getName_def getStatus_def u
        any_of_def numberOr0_undefined bind_exn_def jor_def E_acute_def e_acute_def)
  show "buildRow rt Sweeping_routes (JObj []) i lon lat =
     Inr (JObj ([(''name'', JStr ([CHR 0xC3, CHR 0x89] @ ''l'' @ [CHR 0xC3, CHR 0xA9] @
          ''ment '' @ digits10 (i + 1))),
       (''code'', JNull), (''commune_id'', JNull), (''shift'', JStr ''matin''),
       (''length_meters'', JNum (Fin 0)), (''estimated_duration_minutes'', JNum (Fin 0)),
       (''status'', JStr ''active'')] @
       (if truthy (JNum lon) \<and> truthy (JNum lat)
          then [(''latitude'', JNum lat), (''longitude'', JNum lon)] else [])))"
    by (simp add: buildRow_def getName_def getStatus_def u
        any_of_undefined any_of_text any_of_null numberOr0_undefined bind_exn_def jor_def
        E_acute_def e_acute_def)
qed

lemma mapFeature_row:
  assumes "getProp f ''geometry'' = Inr geometry" and "extractCoordinates geometry = Inr c"
    and "truthy c"
    and "convertCoordinates rt c =
      Inr \<lparr>longitude = Some lon, latitude = Some lat, sourceSystem = Some s, error = None\<rparr>"
    and "s \<noteq> []"
    and "buildRow rt tbl (optGet f ''properties'') i lon lat = Inr row"
  shows "mapFeature rt tbl f i st =
     (row, st\<lparr>success := success st + 1, systems := bumpSystem s (systems st)\<rparr>)"
  using mapFeature_success [OF assms(1-5), of tbl i st] assms(6) by simp

lemma mapFeature_point_row:
  fixes x y :: rat
  assumes "- 180 \<le> x" and "x \<le> 180" and "- 90 \<le> y" and "y \<le> 90"
    and "buildRow rt tbl (JObj []) i (Fin x) (Fin y) = Inr row"
  shows "mapFeature rt tbl (point_feature x y) i st =
     (row, st\<lparr>success := success st + 1, systems := bumpSystem ''EPSG:4326'' (systems st)\<rparr>)"
  unfolding point_feature_def
proof (rule mapFeature_row [OF feature_of_geometry(1) extract_point _
      convert_geographic [OF assms(1-4)]])
  show "truthy (position x y)"
    by (simp add: position_def)
  show "''EPSG:4326'' \<noteq> []"
    by simp
  show "buildRow rt tbl (optGet (feature_of ''Point'' (position x y)) ''properties'') i
      (Fin x) (Fin y) = Inr row"
    using assms(5) by (simp only: feature_of_geometry(2))
qed

lemma buildRow_no_properties_row:
  "\<exists>row. buildRow rt tbl (JObj []) i lon lat = Inr row \<and> row \<noteq> JNull"
proof -
  obtain row where row: "buildRow rt tbl (JObj []) i lon lat = Inr row"
    using buildRow_no_properties [of rt i lon lat] by (cases tbl) simp_all
  then have "row \<noteq> JNull"
    using buildRow_not_null [of rt tbl "JObj []" i lon lat] by auto
  with row show ?thesis
    by blast
qed

lemma mapFeature_malformed_polygon:
  "mapFeature rt tbl (feature_of ''Polygon'' (JArr [JNum (Fin 5)])) i st =
     (JNull, st\<lparr>failed := failed st + 1\<rparr>)"
proof -
  have "extractCoordinates (geometry_of ''Polygon'' (JArr [JNum (Fin 5)])) = Inr JNull"
    by (simp add: extractCoordinates_def geometry_of_def getProp_def bind_exn_def nested2_def
        getIndex_def)
  then show ?thesis
    using mapFeature_no_coordinates [OF feature_of_geometry(1)] by simp
qed

text \<open>
  The feature whose capacity cannot be converted to a number: its conversion succeeds,
  \<^verbatim>\<open>Number\<close> throws while the row of a collection point or of an urban furniture is built,
  and the \<^verbatim>\<open>catch\<close> clause counts it as failed too.
\<close>

lemma mapFeature_odd_capacity:
  assumes "tbl \<noteq> Sweeping_routes"
  shows "mapFeature rt tbl odd_capacity_feature i st =
     (JNull, st\<lparr>success := success st + 1,
                systems := bumpSystem ''EPSG:4326'' (systems st),
                failed := failed st + 1\<rparr>)"
proof -
  have g: "getProp odd_capacity_feature ''geometry'' =
      Inr (geometry_of ''Point'' (position (- 17) 14))"
    and p: "optGet odd_capacity_feature ''properties'' =
      JObj [(''capacity_kg'', JObj [(''toString'', JNull)])]"
    by (simp_all add: odd_capacity_feature_def getProp_def optGet_def)
  have n: "capacity_kg rt (JObj [(''capacity_kg'', JObj [(''toString'', JNull)])]) =
      Inl (TypeError msg_unconvertible)"
    by (simp add: capacity_kg_def numberOr0_def Number_js_def bind_exn_def optGet_def any_of_def
        jor_def)
  have b: "buildRow rt tbl (JObj [(''capacity_kg'', JObj [(''toString'', JNull)])]) i
      (Fin (- 17)) (Fin 14) = Inl (TypeError msg_unconvertible)"
    using assms by (cases tbl) (simp_all add: buildRow_def n bind_exn_def)
  have c: "convertCoordinates rt (position (- 17) 14) =
     Inr \<lparr>longitude = Some (Fin (- 17)), latitude = Some (Fin 14),
          sourceSystem = Some ''EPSG:4326'', error = None\<rparr>"
    by (rule convert_geographic) simp_all
  show ?thesis
    using mapFeature_success [OF g extract_point _ c, of tbl i st]
    by (simp add: p b position_def)
qed

lemma convert_example_utm:
  "convertCoordinates example_rt (position 300000 1630000) =
     Inr \<lparr>longitude = Some (Fin (- 2373007864468949 / 140737488355328)),
          latitude = Some (Fin (2074453267646467 / 140737488355328)),
          sourceSystem = Some ''EPSG:32628'', error = None\<rparr>"
proof -
  have "convertCoordinates_try example_rt (Fin 300000) (Fin 1630000) =
     Inr \<lparr>longitude = Some (Fin (- 2373007864468949 / 140737488355328)),
          latitude = Some (Fin (2074453267646467 / 140737488355328)),
          sourceSystem = Some ''EPSG:32628'', error = None\<rparr>"
    using try_projected [of "Fin 300000" "Fin 1630000" example_rt
        "Fin (- 4746015607256265 / 281474976710656)" "Fin (4148906406687017 / 281474976710656)"]
      example_bounds(1)
    by (simp add: example_detect example_proj4_values example_toFixed [simplified]
        example_toNumber_values)
  then show ?thesis
    by (simp add: position_def convertCoordinates_numeric [of _ "Fin 300000" "Fin 1630000"])
qed

lemma mapFeature_example_utm:
  assumes "buildRow example_rt tbl (JObj []) i
      (Fin (- 2373007864468949 / 140737488355328)) (Fin (2074453267646467 / 140737488355328)) =
      Inr row"
  shows "mapFeature example_rt tbl (point_feature 300000 1630000) i st =
     (row, st\<lparr>success := success st + 1, systems := bumpSystem ''EPSG:32628'' (systems st)\<rparr>)"
  unfolding point_feature_def
proof (rule mapFeature_row [OF feature_of_geometry(1) extract_point _ convert_example_utm])
  show "truthy (position 300000 1630000)"
    by (simp add: position_def)
  show "''EPSG:32628'' \<noteq> []"
    by simp
  show "buildRow example_rt tbl
      (optGet (feature_of ''Point'' (position 300000 1630000)) ''properties'') i
      (Fin (- 2373007864468949 / 140737488355328)) (Fin (2074453267646467 / 140737488355328)) =
      Inr row"
    using assms by (simp only: feature_of_geometry(2))
qed

lemma collection_of_valid:
  "typeof (collection_of fs) = ''object''" "collection_of fs \<noteq> JNull"
  "optGet (collection_of fs) ''type'' = JStr ''FeatureCollection''"
  "optGet (collection_of fs) ''features'' = JArr fs"
  by (simp_all add: collection_of_def optGet_def)

subsection \<open>What holds of the statistics\<close>

lemma bumpSystem_sum_aux:
  "sum_list (map snd (AList.update k v al)) + (case map_of al k of None \<Rightarrow> 0 | Some n \<Rightarrow> n) =
   sum_list (map snd al) + (v::nat)"
  by (induction al) auto

lemma bumpSystem_sum: "sum_list (map snd (bumpSystem s sys)) = sum_list (map snd sys) + 1"
  using bumpSystem_sum_aux [of s "(case map_of sys s of None \<Rightarrow> 0 | Some n \<Rightarrow> n) + 1" sys]
  by (simp add: bumpSystem_def)

text \<open>
  What the callback does to a feature, in three cases: it fails before the conversion has
  succeeded; the conversion succeeds and the row is built; the conversion succeeds and
  building the row throws, after \<^verbatim>\<open>success\<close> and \<^verbatim>\<open>systems\<close> have been updated.
\<close>

lemma mapFeature_step:
  "\<exists>v st'. mapFeature rt tbl f i st = (v, st') \<and>
     ((v = JNull \<and> st' = st\<lparr>failed := failed st + 1\<rparr>) \<or>
      (\<exists>s. s \<in> {''EPSG:4326'', ''EPSG:32628'', ''EPSG:32627'', ''EPSG:2147''} \<and>
         ((v \<noteq> JNull \<and>
           st' = st\<lparr>success := success st + 1, systems := bumpSystem s (systems st)\<rparr>) \<or>
          (v = JNull \<and>
           st' = st\<lparr>success := success st + 1, systems := bumpSystem s (systems st),
                     failed := failed st + 1\<rparr>))))"
proof (cases "getProp f ''geometry''")
  case (Inl e)
  then show ?thesis
    by (simp add: mapFeature_exception)
next
  case geo: (Inr geometry)
  show ?thesis
  proof (cases "extractCoordinates geometry")
    case (Inl e)
    with geo show ?thesis
      by (simp add: mapFeature_extract_throws)
  next
    case v: (Inr v)
    show ?thesis
    proof (cases "truthy v")
      case False
      with geo v show ?thesis
        by (simp add: mapFeature_no_coordinates)
    next
      case True
      obtain r where r: "convertCoordinates rt v = Inr r"
        using convertCoordinates_never_raises [of rt v] by (cases "convertCoordinates rt v") auto
      from convertCoordinates_cases [OF r] show ?thesis
      proof (elim disjE exE conjE)
        fix m
        assume "r = failure m"
        then have "longitude r = None \<or> latitude r = None"
          by (simp add: failure_def)
        then show ?thesis
          using geo v True r by (simp add: mapFeature_conversion_failure)
      next
        fix lon lat s
        assume s: "s \<in> {''EPSG:4326'', ''EPSG:32628'', ''EPSG:32627'', ''EPSG:2147''}"
          and rs: "r = \<lparr>longitude = Some lon, latitude = Some lat, sourceSystem = Some s,
            error = None\<rparr>"
        from s have ne: "s \<noteq> []"
          by auto
        note m = mapFeature_success [OF geo v True r [unfolded rs] ne, of tbl i st]
        show ?thesis
        proof (cases "buildRow rt tbl (optGet f ''properties'') i lon lat")
          case (Inl e)
          with m s show ?thesis
            by auto
        next
          case (Inr row)
          then have "row \<noteq> JNull"
            using buildRow_not_null [of rt tbl "optGet f ''properties''" i lon lat] by auto
          with m s Inr show ?thesis
            by auto
        qed
      qed
    qed
  qed
qed

text \<open>
  Over a list of features: one value per feature, \<^verbatim>\<open>total\<close> untouched, one more in
  \<^verbatim>\<open>failed\<close> for each \<^verbatim>\<open>null\<close>, at least one more in \<^verbatim>\<open>success\<close> for each row and at most
  one more for each feature, and \<^verbatim>\<open>systems\<close> growing with \<^verbatim>\<open>success\<close>.
\<close>

lemma mapFeatures_stats:
  assumes "mapFeatures rt tbl fs i st = (vs, st')"
  shows "length vs = length fs \<and> total_stat st' = total_stat st \<and>
     failed st' + length (filter (\<lambda>v. v \<noteq> JNull) vs) = failed st + length fs \<and>
     success st + length (filter (\<lambda>v. v \<noteq> JNull) vs) \<le> success st' \<and>
     success st' \<le> success st + length fs \<and>
     sum_list (map snd (systems st')) + success st =
       sum_list (map snd (systems st)) + success st'"
  using assms
proof (induction fs arbitrary: i st vs st')
  case Nil
  then show ?case
    by simp
next
  case (Cons f fs)
  obtain v st1 where f: "mapFeature rt tbl f i st = (v, st1)"
    by (cases "mapFeature rt tbl f i st")
  obtain ws st2 where r: "mapFeatures rt tbl fs (i + 1) st1 = (ws, st2)"
    by (cases "mapFeatures rt tbl fs (i + 1) st1")
  from Cons.prems f r have vs: "vs = v # ws" and st': "st' = st2"
    by simp_all
  note ih = Cons.IH [OF r]
  from mapFeature_step [of rt tbl f i st] f
  consider "v = JNull" "st1 = st\<lparr>failed := failed st + 1\<rparr>"
    | s where "v \<noteq> JNull"
        "st1 = st\<lparr>success := success st + 1, systems := bumpSystem s (systems st)\<rparr>"
    | s where "v = JNull"
        "st1 = st\<lparr>success := success st + 1, systems := bumpSystem s (systems st),
                   failed := failed st + 1\<rparr>"
    by auto
  then show ?case
  proof cases
    case 1
    with ih show ?thesis
      by (simp add: vs st')
  next
    case 2
    with ih show ?thesis
      by (simp add: vs st' bumpSystem_sum)
  next
    case 3
    with ih show ?thesis
      by (simp add: vs st' bumpSystem_sum)
  qed
qed

lemma prepareRows_Inr:
  assumes "prepareRows rt g tbl = Inr (rows, st)"
  shows "\<exists>fs vs. optGet g ''features'' = JArr fs \<and> fs \<noteq> [] \<and>
     mapFeatures rt tbl fs 0 \<lparr>total_stat = length fs, success = 0, failed = 0, systems = []\<rparr> =
       (vs, st) \<and>
     rows = filter (\<lambda>item. item \<noteq> JNull) vs \<and> rows \<noteq> []"
proof -
  have a: "typeof g = ''object'' \<and> g \<noteq> JNull"
    using assms prepareRows_errors(1) [of g rt tbl] by auto
  have b: "optGet g ''type'' = JStr ''FeatureCollection''"
    using assms a prepareRows_errors(2) [of g rt tbl] by auto
  have "isArray (optGet g ''features'')"
    using assms a b prepareRows_errors(3) [of g rt tbl] by auto
  then obtain fs where fs: "optGet g ''features'' = JArr fs"
    by (cases "optGet g ''features''") simp_all
  have ne: "fs \<noteq> []"
    using assms a b fs prepareRows_errors(4) [of g rt tbl] by auto
  obtain vs st0 where m: "mapFeatures rt tbl fs 0
      \<lparr>total_stat = length fs, success = 0, failed = 0, systems = []\<rparr> = (vs, st0)"
    by (cases "mapFeatures rt tbl fs 0
      \<lparr>total_stat = length fs, success = 0, failed = 0, systems = []\<rparr>")
  from assms a b fs ne m have "rows = filter (\<lambda>item. item \<noteq> JNull) vs \<and> st = st0 \<and> rows \<noteq> []"
    by (auto simp: prepareRows_valid [of g fs rt tbl] Let_def split: if_splits)
  with fs ne m show ?thesis
    by blast
qed

lemma upload_Inr:
  assumes "uploadGeoJSONWithProj4 rt g tbl = Inr res"
  shows "\<exists>rows. prepareRows rt g tbl = Inr (rows, conversionStats res) \<and>
     count res = length rows \<and> skipped res = failed (conversionStats res)"
proof (cases "prepareRows rt g tbl")
  case (Inl e)
  with assms show ?thesis
    by (simp add: uploadGeoJSONWithProj4_def bind_exn_def)
next
  case (Inr p)
  obtain rows st where p: "p = (rows, st)"
    by (cases p)
  obtain d m where ins: "db_insert rt tbl rows = (d, m)"
    by (cases "db_insert rt tbl rows")
  from assms Inr p ins show ?thesis
    by (cases m) (auto simp: uploadGeoJSONWithProj4_def bind_exn_def)
qed

text \<open>
  When the upload returns: \<^verbatim>\<open>total\<close> is the number of features, \<^verbatim>\<open>count + failed = total\<close>,
  \<^verbatim>\<open>count \<le> success \<le> total\<close>, \<^verbatim>\<open>skipped = failed\<close>, and the counts of \<^verbatim>\<open>systems\<close> add up to
  \<^verbatim>\<open>success\<close>.
\<close>

lemma upload_stats:
  assumes "uploadGeoJSONWithProj4 rt g tbl = Inr res"
  shows "(\<exists>fs. optGet g ''features'' = JArr fs \<and>
        total_stat (conversionStats res) = length fs) \<and>
     count res + failed (conversionStats res) = total_stat (conversionStats res) \<and>
     count res \<le> success (conversionStats res) \<and>
     success (conversionStats res) \<le> total_stat (conversionStats res) \<and>
     skipped res = failed (conversionStats res) \<and>
     sum_list (map snd (systems (conversionStats res))) = success (conversionStats res)"
proof -
  from upload_Inr [OF assms] obtain rows where
    p: "prepareRows rt g tbl = Inr (rows, conversionStats res)"
    and c: "count res = length rows" and s: "skipped res = failed (conversionStats res)"
    by blast
  from prepareRows_Inr [OF p] obtain fs vs where
    fs: "optGet g ''features'' = JArr fs"
    and m: "mapFeatures rt tbl fs 0
        \<lparr>total_stat = length fs, success = 0, failed = 0, systems = []\<rparr> =
      (vs, conversionStats res)"
    and rows: "rows = filter (\<lambda>item. item \<noteq> JNull) vs"
    by blast
  from mapFeatures_stats [OF m] fs c s rows show ?thesis
    by auto
qed

text \<open>
  Claim C6. Before any feature is mapped the upload refuses, each time with its own
  message and with the same result whatever the runtime and the table are: an input that
  is not a non-null object; a \<^verbatim>\<open>type\<close> other than \<^verbatim>\<open>"FeatureCollection"\<close>; a \<^verbatim>\<open>features\<close>
  that is not an array; an empty \<^verbatim>\<open>features\<close>. When the input passes these checks and the
  mapping leaves no row, the upload raises a fifth message, different from the four others.
\<close>

theorem upload_validation_errors:
  "(\<not> (typeof g = ''object'' \<and> g \<noteq> JNull) \<longrightarrow>
      uploadGeoJSONWithProj4 rt g tbl = Inl (Error err_not_object)) \<and>
   (typeof g = ''object'' \<and> g \<noteq> JNull \<and> optGet g ''type'' \<noteq> JStr ''FeatureCollection'' \<longrightarrow>
      uploadGeoJSONWithProj4 rt g tbl = Inl (Error err_not_collection)) \<and>
   (typeof g = ''object'' \<and> g \<noteq> JNull \<and> optGet g ''type'' = JStr ''FeatureCollection'' \<and>
    \<not> isArray (optGet g ''features'') \<longrightarrow>
      uploadGeoJSONWithProj4 rt g tbl = Inl (Error err_no_features)) \<and>
   (typeof g = ''object'' \<and> g \<noteq> JNull \<and> optGet g ''type'' = JStr ''FeatureCollection'' \<and>
    optGet g ''features'' = JArr [] \<longrightarrow>
      uploadGeoJSONWithProj4 rt g tbl = Inl (Error err_empty)) \<and>
   (\<forall>fs. typeof g = ''object'' \<and> g \<noteq> JNull \<and>
      optGet g ''type'' = JStr ''FeatureCollection'' \<and> optGet g ''features'' = JArr fs \<and>
      fs \<noteq> [] \<and>
      (\<forall>v \<in> set (fst (mapFeatures rt tbl fs 0
          \<lparr>total_stat = length fs, success = 0, failed = 0, systems = []\<rparr>)). v = JNull) \<longrightarrow>
      uploadGeoJSONWithProj4 rt g tbl = Inl (Error err_none_valid)) \<and>
   distinct [err_not_object, err_not_collection, err_no_features, err_empty, err_none_valid]"
proof -
  have up: "uploadGeoJSONWithProj4 rt g tbl = Inl e" if "prepareRows rt g tbl = Inl e" for e
    using that by (simp add: uploadGeoJSONWithProj4_def bind_exn_def)
  have none: "prepareRows rt g tbl = Inl (Error err_none_valid)"
    if "typeof g = ''object''" "g \<noteq> JNull" "optGet g ''type'' = JStr ''FeatureCollection''"
      "optGet g ''features'' = JArr fs" "fs \<noteq> []"
      "\<forall>v \<in> set (fst (mapFeatures rt tbl fs 0
          \<lparr>total_stat = length fs, success = 0, failed = 0, systems = []\<rparr>)). v = JNull"
    for fs
  proof -
    have "filter (\<lambda>item. item \<noteq> JNull) (fst (mapFeatures rt tbl fs 0
          \<lparr>total_stat = length fs, success = 0, failed = 0, systems = []\<rparr>)) = []"
      using that(6) by (simp add: filter_empty_conv)
    then show ?thesis
      using that(1-5) by (simp add: prepareRows_valid [of g fs rt tbl] Let_def)
  qed
  have d: "distinct [err_not_object, err_not_collection, err_no_features, err_empty,
      err_none_valid]"
    by (simp add: err_not_object_def err_not_collection_def err_no_features_def err_empty_def
        err_none_valid_def)
  show ?thesis
    using prepareRows_errors [of g rt tbl] up none d by blast
qed

text \<open>
  \<^verbatim>\<open>null\<close>, a single feature, a collection without \<^verbatim>\<open>features\<close>, an empty collection, and
  a collection of a \<^verbatim>\<open>null\<close> feature and a malformed polygon, each with the text of its error.
\<close>

theorem upload_validation_errors_witness:
  "uploadGeoJSONWithProj4 example_rt JNull Collection_points =
     Inl (Error ''Le fichier doit contenir un objet JSON valide'') \<and>
   uploadGeoJSONWithProj4 example_rt (point_feature 1 2) Collection_points =
     Inl (Error (''Le GeoJSON doit '' @ [CHR 0xC3, CHR 0xAA] @ ''tre de type '' @ [CHR 0x22] @
       ''FeatureCollection'' @ [CHR 0x22])) \<and>
   uploadGeoJSONWithProj4 example_rt (JObj [(''type'', JStr ''FeatureCollection'')])
     Collection_points =
     Inl (Error (''Le GeoJSON doit contenir un tableau '' @ [CHR 0x22] @ ''features'' @
       [CHR 0x22])) \<and>
   uploadGeoJSONWithProj4 example_rt (collection_of []) Collection_points =
     Inl (Error ''Le GeoJSON ne contient aucune feature'') \<and>
   uploadGeoJSONWithProj4 example_rt
     (collection_of [JNull, feature_of ''Polygon'' (JArr [JNum (Fin 5)])]) Collection_points =
     Inl (Error (''Aucune feature valide trouv'' @ [CHR 0xC3, CHR 0xA9] @
       ''e dans le GeoJSON apr'' @ [CHR 0xC3, CHR 0xA8] @ ''s conversion''))"
proof -
  have a: "uploadGeoJSONWithProj4 example_rt JNull Collection_points =
      Inl (Error ''Le fichier doit contenir un objet JSON valide'')"
    using upload_validation_errors [of JNull example_rt Collection_points]
    by (simp add: err_not_object_def)
  have b: "uploadGeoJSONWithProj4 example_rt (point_feature 1 2) Collection_points =
      Inl (Error (''Le GeoJSON doit '' @ [CHR 0xC3, CHR 0xAA] @ ''tre de type '' @ [CHR 0x22] @
       ''FeatureCollection'' @ [CHR 0x22]))"
    using upload_validation_errors [of "point_feature 1 2" example_rt Collection_points]
    by (simp add: point_feature_def feature_of_def optGet_def err_not_collection_def e_circ_def)
  have c: "uploadGeoJSONWithProj4 example_rt (JObj [(''type'', JStr ''FeatureCollection'')])
      Collection_points =
      Inl (Error (''Le GeoJSON doit contenir un tableau '' @ [CHR 0x22] @ ''features'' @
       [CHR 0x22]))"
    using upload_validation_errors
      [of "JObj [(''type'', JStr ''FeatureCollection'')]" example_rt Collection_points]
    by (simp add: optGet_def err_no_features_def)
  have d: "uploadGeoJSONWithProj4 example_rt (collection_of []) Collection_points =
      Inl (Error ''Le GeoJSON ne contient aucune feature'')"
    using upload_validation_errors [of "collection_of []" example_rt Collection_points]
    by (simp add: collection_of_valid err_empty_def)
  have e: "uploadGeoJSONWithProj4 example_rt
      (collection_of [JNull, feature_of ''Polygon'' (JArr [JNum (Fin 5)])]) Collection_points =
      Inl (Error (''Aucune feature valide trouv'' @ [CHR 0xC3, CHR 0xA9] @
       ''e dans le GeoJSON apr'' @ [CHR 0xC3, CHR 0xA8] @ ''s conversion''))"
    using upload_validation_errors
      [of "collection_of [JNull, feature_of ''Polygon'' (JArr [JNum (Fin 5)])]"
        example_rt Collection_points]
    by (simp add: collection_of_valid mapFeature_nullish mapFeature_malformed_polygon
        err_none_valid_def e_acute_def e_grave_def)
  from a b c d e show ?thesis
    by blast
qed

text \<open>
  Claim C7 on a collection of two point features, the second with a capacity that
  \<^verbatim>\<open>Number\<close> cannot convert. Both conversions succeed, so \<^verbatim>\<open>success\<close> is \<open>2\<close>; building the
  second row throws after \<^verbatim>\<open>success\<close> has been incremented, and the \<^verbatim>\<open>catch\<close> clause
  increments \<^verbatim>\<open>failed\<close> for the same feature. The upload returns with \<^verbatim>\<open>total = 2\<close>,
  \<^verbatim>\<open>success = 2\<close>, \<^verbatim>\<open>failed = 1\<close> and one row: \<^verbatim>\<open>success + failed\<close> is not \<^verbatim>\<open>total\<close> and
  \<^verbatim>\<open>count\<close> is not \<^verbatim>\<open>success\<close>.
\<close>

theorem conversionStats_double_count:
  "uploadGeoJSONWithProj4 example_rt
     (collection_of [point_feature (- 17) 14, odd_capacity_feature]) Collection_points =
     Inr \<lparr>data = JNull, count = 1, skipped = 1,
          conversionStats =
            \<lparr>total_stat = 2, success = 2, failed = 1, systems = [(''EPSG:4326'', 2)]\<rparr>\<rparr>"
proof -
  obtain row where r: "buildRow example_rt Collection_points (JObj []) 0 (Fin (- 17)) (Fin 14) =
      Inr row"
    and row: "row \<noteq> JNull"
    using buildRow_no_properties_row by blast
  have m: "mapFeature example_rt Collection_points (point_feature (- 17) 14) 0 st =
      (row, st\<lparr>success := success st + 1,
                 systems := bumpSystem ''EPSG:4326'' (systems st)\<rparr>)" for st
    by (rule mapFeature_point_row [OF _ _ _ _ r]) simp_all
  have "prepareRows example_rt
      (collection_of [point_feature (- 17) 14, odd_capacity_feature]) Collection_points =
     Inr ([row], \<lparr>total_stat = 2, success = 2, failed = 1, systems = [(''EPSG:4326'', 2)]\<rparr>)"
    using row
    by (simp add: prepareRows_valid [OF collection_of_valid(1-4)] Let_def m
        mapFeature_odd_capacity bumpSystem_def)
  then show ?thesis
    by (simp add: uploadGeoJSONWithProj4_def bind_exn_def example_rt_def)
qed

text \<open>The statistics of that upload break both equations of the claim.\<close>

theorem conversionStats_double_count_witness:
  "\<exists>res. uploadGeoJSONWithProj4 example_rt
       (collection_of [point_feature (- 17) 14, odd_capacity_feature]) Collection_points =
       Inr res \<and>
     total_stat (conversionStats res) = 2 \<and>
     success (conversionStats res) + failed (conversionStats res) = 3 \<and>
     count res = 1 \<and> success (conversionStats res) = 2 \<and> skipped res = 1"
  using conversionStats_double_count by simp

text \<open>
  Claim C10 on a collection of a UTM 28N point and the point whose capacity cannot be
  converted, mapped to urban furniture. The second feature yields no row and is counted in
  \<^verbatim>\<open>failed\<close>, and yet it adds the key \<^verbatim>\<open>EPSG:4326\<close> to \<^verbatim>\<open>systems\<close>: the entry is written
  before the row is built. Mapped alone from empty statistics, that feature leaves
  \<^verbatim>\<open>failed = 1\<close> and \<^verbatim>\<open>systems\<close> with one key.
\<close>

theorem systems_changed_by_failed_feature:
  "mapFeature example_rt Urban_furniture odd_capacity_feature 0
     \<lparr>total_stat = 1, success = 0, failed = 0, systems = []\<rparr> =
     (JNull, \<lparr>total_stat = 1, success = 1, failed = 1, systems = [(''EPSG:4326'', 1)]\<rparr>) \<and>
   uploadGeoJSONWithProj4 example_rt
     (collection_of [point_feature 300000 1630000, odd_capacity_feature]) Urban_furniture =
     Inr \<lparr>data = JNull, count = 1, skipped = 1,
          conversionStats =
            \<lparr>total_stat = 2, success = 2, failed = 1,
             systems = [(''EPSG:32628'', 1), (''EPSG:4326'', 1)]\<rparr>\<rparr>"
proof -
  have a: "mapFeature example_rt Urban_furniture odd_capacity_feature 0
     \<lparr>total_stat = 1, success = 0, failed = 0, systems = []\<rparr> =
     (JNull, \<lparr>total_stat = 1, success = 1, failed = 1, systems = [(''EPSG:4326'', 1)]\<rparr>)"
    by (simp add: mapFeature_odd_capacity bumpSystem_def)
  obtain row where
    r: "buildRow example_rt Urban_furniture (JObj []) 0
        (Fin (- 2373007864468949 / 140737488355328))
        (Fin (2074453267646467 / 140737488355328)) = Inr row"
    and row: "row \<noteq> JNull"
    using buildRow_no_properties_row by blast
  note m = mapFeature_example_utm [OF r]
  have "prepareRows example_rt
      (collection_of [point_feature 300000 1630000, odd_capacity_feature]) Urban_furniture =
     Inr ([row], \<lparr>total_stat = 2, success = 2, failed = 1,
                   systems = [(''EPSG:32628'', 1), (''EPSG:4326'', 1)]\<rparr>)"
    using row
    by (simp add: prepareRows_valid [OF collection_of_valid(1-4)] Let_def m
        mapFeature_odd_capacity bumpSystem_def)
  then have b: "uploadGeoJSONWithProj4 example_rt
     (collection_of [point_feature 300000 1630000, odd_capacity_feature]) Urban_furniture =
     Inr \<lparr>data = JNull, count = 1, skipped = 1,
          conversionStats =
            \<lparr>total_stat = 2, success = 2, failed = 1,
             systems = [(''EPSG:32628'', 1), (''EPSG:4326'', 1)]\<rparr>\<rparr>"
    by (simp add: uploadGeoJSONWithProj4_def bind_exn_def example_rt_def)
  from a b show ?thesis
    by (rule conjI)
qed

text \<open>The feature that yields \<^verbatim>\<open>null\<close> and is counted as failed has changed \<^verbatim>\<open>systems\<close>.\<close>

theorem systems_changed_by_failed_feature_witness:
  "\<exists>st. mapFeature example_rt Urban_furniture odd_capacity_feature 0
       \<lparr>total_stat = 1, success = 0, failed = 0, systems = []\<rparr> = (JNull, st) \<and>
     failed st = 1 \<and> systems st = [(''EPSG:4326'', 1)] \<and> systems st \<noteq> []"
  using systems_changed_by_failed_feature by simp

text \<open>
  Claim C9 at a point on the prime meridian. The conversion succeeds with longitude \<open>0\<close>
  and latitude \<open>45\<close>, the feature is counted as a success and a row is built, but the row
  for a sweeping route has neither \<^verbatim>\<open>latitude\<close> nor \<^verbatim>\<open>longitude\<close>, since \<open>0\<close> is falsy;
  the row for a collection point has both.
\<close>

theorem sweeping_route_zero_longitude:
  "convertCoordinates example_rt (position 0 45) =
     Inr \<lparr>longitude = Some (Fin 0), latitude = Some (Fin 45),
          sourceSystem = Some ''EPSG:4326'', error = None\<rparr> \<and>
   buildRow example_rt Sweeping_routes (JObj []) 0 (Fin 0) (Fin 45) = Inr zero_route_row \<and>
   prepareRows example_rt (collection_of [point_feature 0 45]) Sweeping_routes =
     Inr ([zero_route_row],
          \<lparr>total_stat = 1, success = 1, failed = 0, systems = [(''EPSG:4326'', 1)]\<rparr>) \<and>
   \<not> hasOwn zero_route_row ''longitude'' \<and>
   \<not> hasOwn zero_route_row ''latitude'' \<and>
   buildRow example_rt Collection_points (JObj []) 0 (Fin 0) (Fin 45) = Inr zero_point_row \<and>
   getOwn zero_point_row ''longitude'' = JNum (Fin 0) \<and>
   getOwn zero_point_row ''latitude'' = JNum (Fin 45)"
proof -
  have a: "convertCoordinates example_rt (position 0 45) =
     Inr \<lparr>longitude = Some (Fin 0), latitude = Some (Fin 45),
          sourceSystem = Some ''EPSG:4326'', error = None\<rparr>"
    by (rule convert_geographic) simp_all
  have r: "buildRow example_rt Sweeping_routes (JObj []) 0 (Fin 0) (Fin 45) = Inr zero_route_row"
    by (simp add: buildRow_no_properties(3) zero_route_row_def digits10.simps digit_char_def)
  have m: "mapFeature example_rt Sweeping_routes (point_feature 0 45) 0 st =
      (zero_route_row,
       st\<lparr>success := success st + 1, systems := bumpSystem ''EPSG:4326'' (systems st)\<rparr>)" for st
    by (rule mapFeature_point_row [OF _ _ _ _ r]) simp_all
  have n: "zero_route_row \<noteq> JNull"
    by (simp add: zero_route_row_def)
  have b: "prepareRows example_rt (collection_of [point_feature 0 45]) Sweeping_routes =
     Inr ([zero_route_row],
          \<lparr>total_stat = 1, success = 1, failed = 0, systems = [(''EPSG:4326'', 1)]\<rparr>)"
    by (simp add: prepareRows_valid [OF collection_of_valid(1-4)] Let_def m n bumpSystem_def)
  have c: "\<not> hasOwn zero_route_row ''longitude''" "\<not> hasOwn zero_route_row ''latitude''"
    by (simp_all add: zero_route_row_def)
  have d: "buildRow example_rt Collection_points (JObj []) 0 (Fin 0) (Fin 45) =
      Inr zero_point_row"
    by (simp add: buildRow_no_properties(1) zero_point_row_def digits10.simps digit_char_def)
  have e: "getOwn zero_point_row ''longitude'' = JNum (Fin 0)"
    "getOwn zero_point_row ''latitude'' = JNum (Fin 45)"
    by (simp_all add: zero_point_row_def)
  from a r b c d e show ?thesis
    by blast
qed

text \<open>The feature is counted as a success, and its only row lacks the longitude.\<close>

theorem sweeping_route_zero_longitude_witness:
  "\<exists>row st. prepareRows example_rt (collection_of [point_feature 0 45]) Sweeping_routes =
       Inr ([row], st) \<and>
     success st = 1 \<and> failed st = 0 \<and> \<not> hasOwn row ''longitude'' \<and> \<not> hasOwn row ''latitude''"
  using sweeping_route_zero_longitude by simp

subsection \<open>The clock and the storage client\<close>

lemma toFixed_clock: "toFixed (rt\<lparr>clock := c, db_insert := d\<rparr>) k x = toFixed rt k x"
  by (cases x) (simp_all add: toFixed_def)

lemma msg_clock:
  "msg_out_of_bounds (rt\<lparr>clock := c, db_insert := d\<rparr>) lon lat = msg_out_of_bounds rt lon lat"
  by (simp add: msg_out_of_bounds_def toFixed_clock)

lemma Number_js_clock: "Number_js (rt\<lparr>clock := c, db_insert := d\<rparr>) v = Number_js rt v"
  by (cases v) (simp_all add: Number_js_def)

lemma try_clock:
  "convertCoordinates_try (rt\<lparr>clock := c, db_insert := d\<rparr>) x y = convertCoordinates_try rt x y"
proof -
  have sel: "proj4 (rt\<lparr>clock := c, db_insert := d\<rparr>) = proj4 rt"
    by (simp add: fun_eq_iff proj4_def)
  show ?thesis
    unfolding convertCoordinates_try_def msg_clock toFixed_clock Number_js_clock sel by (rule refl)
qed

lemma convertCoordinates_clock:
  "convertCoordinates (rt\<lparr>clock := c, db_insert := d\<rparr>) v = convertCoordinates rt v"
  unfolding convertCoordinates_def try_clock by (rule refl)

lemma numberOr0_clock: "numberOr0 (rt\<lparr>clock := c, db_insert := d\<rparr>) v = numberOr0 rt v"
  by (simp add: numberOr0_def Number_js_clock)

lemma any_of_last: "any_of a [b, b', x] = jor (any_of a [b, b']) x"
  by (simp add: any_of_def)

lemma buildRow_clock:
  assumes "tbl \<noteq> Urban_furniture \<or> c i = clock rt i \<or>
    truthy (any_of (optGet props ''install_date'')
      [optGet props ''date_installation'', optGet props ''INSTALL_DATE''])"
  shows "buildRow (rt\<lparr>clock := c, db_insert := d\<rparr>) tbl props i lon lat =
     buildRow rt tbl props i lon lat"
proof (cases tbl)
  case Urban_furniture
  with assms have "any_of (optGet props ''install_date'')
      [optGet props ''date_installation'', optGet props ''INSTALL_DATE'', JStr (c i)] =
    any_of (optGet props ''install_date'')
      [optGet props ''date_installation'', optGet props ''INSTALL_DATE'', JStr (clock rt i)]"
    unfolding any_of_last by (auto simp: jor_def)
  with Urban_furniture show ?thesis
    unfolding buildRow_def capacity_kg_def numberOr0_clock by simp
qed (simp_all add: buildRow_def capacity_kg_def numberOr0_clock)

lemma buildRow_clock_raises:
  "(\<exists>e. buildRow (rt\<lparr>clock := c, db_insert := d\<rparr>) tbl props i lon lat = Inl e \<and>
        buildRow rt tbl props i lon lat = Inl e) \<or>
   (\<exists>row row'. buildRow (rt\<lparr>clock := c, db_insert := d\<rparr>) tbl props i lon lat = Inr row \<and>
        buildRow rt tbl props i lon lat = Inr row')"
proof (cases tbl)
  case Collection_points
  then show ?thesis
    unfolding buildRow_def capacity_kg_def numberOr0_clock
    using numberOr0_cases [of rt "any_of (optGet props ''capacity_kg'')
        [optGet props ''capacite_kg'', optGet props ''CAPACITY_KG'']"]
    by (auto simp: bind_exn_def)
next
  case Urban_furniture
  then show ?thesis
    unfolding buildRow_def capacity_kg_def numberOr0_clock
    using numberOr0_cases [of rt "any_of (optGet props ''capacity_kg'')
        [optGet props ''capacite_kg'', optGet props ''CAPACITY_KG'']"]
    by (auto simp: bind_exn_def)
next
  case Sweeping_routes
  then show ?thesis
    unfolding buildRow_def numberOr0_clock
    using numberOr0_cases [of rt "any_of (optGet props ''length_meters'')
        [optGet props ''longueur_m'', optGet props ''LENGTH_METERS'', optGet props ''LONGUEUR_M'']"]
      numberOr0_cases [of rt "any_of (optGet props ''estimated_duration_minutes'')
        [optGet props ''duree_estimee_min'', optGet props ''ESTIMATED_DURATION'',
         optGet props ''DUREE_ESTIMEE'']"]
    by (auto simp: bind_exn_def)
qed

lemma mapFeature_clock:
  "snd (mapFeature (rt\<lparr>clock := c, db_insert := d\<rparr>) tbl f i st) =
     snd (mapFeature rt tbl f i st) \<and>
   (fst (mapFeature (rt\<lparr>clock := c, db_insert := d\<rparr>) tbl f i st) = JNull \<longleftrightarrow>
      fst (mapFeature rt tbl f i st) = JNull) \<and>
   (tbl \<noteq> Urban_furniture \<or> c i = clock rt i \<or> has_install_date f \<longrightarrow>
      mapFeature (rt\<lparr>clock := c, db_insert := d\<rparr>) tbl f i st = mapFeature rt tbl f i st)"
proof -
  let ?rt = "rt\<lparr>clock := c, db_insert := d\<rparr>"
  let ?goal = "snd (mapFeature ?rt tbl f i st) = snd (mapFeature rt tbl f i st) \<and>
   (fst (mapFeature ?rt tbl f i st) = JNull \<longleftrightarrow> fst (mapFeature rt tbl f i st) = JNull) \<and>
   (tbl \<noteq> Urban_furniture \<or> c i = clock rt i \<or> has_install_date f \<longrightarrow>
      mapFeature ?rt tbl f i st = mapFeature rt tbl f i st)"
  have same: ?goal
    if "mapFeature ?rt tbl f i st = (JNull, st\<lparr>failed := failed st + 1\<rparr>)"
      and "mapFeature rt tbl f i st = (JNull, st\<lparr>failed := failed st + 1\<rparr>)"
    using that by simp
  show ?goal
  proof (cases "getProp f ''geometry''")
    case (Inl e)
    then show ?thesis
      by (intro same mapFeature_exception)
  next
    case geo: (Inr geometry)
    show ?thesis
    proof (cases "extractCoordinates geometry")
      case (Inl e)
      with geo show ?thesis
        by (intro same mapFeature_extract_throws)
    next
      case v: (Inr v)
      show ?thesis
      proof (cases "truthy v")
        case False
        with geo v show ?thesis
          by (intro same mapFeature_no_coordinates)
      next
        case True
        obtain r where r: "convertCoordinates rt v = Inr r"
          using convertCoordinates_never_raises [of rt v] by (cases "convertCoordinates rt v") auto
        then have r': "convertCoordinates ?rt v = Inr r"
          by (simp add: convertCoordinates_clock)
        from convertCoordinates_cases [OF r] show ?thesis
        proof (elim disjE exE conjE)
          fix m
          assume "r = failure m"
          then have "longitude r = None \<or> latitude r = None"
            by (simp add: failure_def)
          then show ?thesis
            using geo v True r r' by (intro same mapFeature_conversion_failure)
        next
          fix lon lat s
          assume s: "s \<in> {''EPSG:4326'', ''EPSG:32628'', ''EPSG:32627'', ''EPSG:2147''}"
            and rs: "r = \<lparr>longitude = Some lon, latitude = Some lat, sourceSystem = Some s,
              error = None\<rparr>"
          from s have ne: "s \<noteq> []"
            by auto
          note m = mapFeature_success [OF geo v True r [unfolded rs] ne, of tbl i st]
          note m' = mapFeature_success [OF geo v True r' [unfolded rs] ne, of tbl i st]
          have eq: "buildRow ?rt tbl (optGet f ''properties'') i lon lat =
              buildRow rt tbl (optGet f ''properties'') i lon lat"
            if "tbl \<noteq> Urban_furniture \<or> c i = clock rt i \<or> has_install_date f"
            using that by (intro buildRow_clock) (simp add: has_install_date_def)
          from buildRow_clock_raises [where rt = rt and c = c and d = d and tbl = tbl
              and props = "optGet f ''properties''" and i = i and lon = lon and lat = lat]
          show ?thesis
          proof (elim disjE exE conjE)
            fix e
            assume "buildRow ?rt tbl (optGet f ''properties'') i lon lat = Inl e"
              "buildRow rt tbl (optGet f ''properties'') i lon lat = Inl e"
            then show ?thesis
              unfolding m m' by simp
          next
            fix row row'
            assume b: "buildRow ?rt tbl (optGet f ''properties'') i lon lat = Inr row"
              "buildRow rt tbl (optGet f ''properties'') i lon lat = Inr row'"
            then have "row \<noteq> JNull" and "row' \<noteq> JNull"
              using buildRow_not_null [of ?rt tbl "optGet f ''properties''" i lon lat]
                buildRow_not_null [of rt tbl "optGet f ''properties''" i lon lat]
              by auto
            with b eq show ?thesis
              unfolding m m' by auto
          qed
        qed
      qed
    qed
  qed
qed

lemma mapFeatures_clock:
  "snd (mapFeatures (rt\<lparr>clock := c, db_insert := d\<rparr>) tbl fs i st) =
     snd (mapFeatures rt tbl fs i st) \<and>
   map (\<lambda>v. v = JNull) (fst (mapFeatures (rt\<lparr>clock := c, db_insert := d\<rparr>) tbl fs i st)) =
     map (\<lambda>v. v = JNull) (fst (mapFeatures rt tbl fs i st)) \<and>
   (tbl \<noteq> Urban_furniture \<or> (\<forall>j. c j = clock rt j) \<or> (\<forall>f \<in> set fs. has_install_date f) \<longrightarrow>
      mapFeatures (rt\<lparr>clock := c, db_insert := d\<rparr>) tbl fs i st = mapFeatures rt tbl fs i st)"
proof (induction fs arbitrary: i st)
  case Nil
  show ?case
    by simp
next
  case (Cons f fs)
  let ?rt = "rt\<lparr>clock := c, db_insert := d\<rparr>"
  obtain v st1 where a: "mapFeature rt tbl f i st = (v, st1)"
    by (cases "mapFeature rt tbl f i st")
  obtain v' st1' where a': "mapFeature ?rt tbl f i st = (v', st1')"
    by (cases "mapFeature ?rt tbl f i st")
  from mapFeature_clock [where rt = rt and c = c and d = d and tbl = tbl and f = f and i = i
      and st = st] a a'
  have st1: "st1' = st1" and null: "v' = JNull \<longleftrightarrow> v = JNull"
    and same: "tbl \<noteq> Urban_furniture \<or> c i = clock rt i \<or> has_install_date f \<Longrightarrow> v' = v"
    by simp_all
  obtain ws st2 where b: "mapFeatures rt tbl fs (i + 1) st1 = (ws, st2)"
    by (cases "mapFeatures rt tbl fs (i + 1) st1")
  obtain ws' st2' where b': "mapFeatures ?rt tbl fs (i + 1) st1 = (ws', st2')"
    by (cases "mapFeatures ?rt tbl fs (i + 1) st1")
  from Cons.IH [of "i + 1" st1] b b'
  have st2: "st2' = st2" and nulls: "map (\<lambda>v. v = JNull) ws' = map (\<lambda>v. v = JNull) ws"
    and sames: "tbl \<noteq> Urban_furniture \<or> (\<forall>j. c j = clock rt j) \<or>
      (\<forall>f \<in> set fs. has_install_date f) \<Longrightarrow> ws' = ws"
    by simp_all
  have l: "mapFeatures rt tbl (f # fs) i st = (v # ws, st2)"
    using a b by simp
  have l': "mapFeatures ?rt tbl (f # fs) i st = (v' # ws', st2')"
    using a' b' st1 by simp
  show ?case
    unfolding l l' using st2 null nulls same sames by auto
qed

lemma filter_not_null_empty:
  "filter (\<lambda>v. v \<noteq> JNull) xs = [] \<longleftrightarrow> list_all id (map (\<lambda>v. v = JNull) xs)"
  by (induction xs) auto

lemma prepareRows_clock:
  "map_sum id snd (prepareRows (rt\<lparr>clock := c, db_insert := d\<rparr>) g tbl) =
     map_sum id snd (prepareRows rt g tbl) \<and>
   (tbl \<noteq> Urban_furniture \<or> (\<forall>i. c i = clock rt i) \<or>
    (\<forall>fs. optGet g ''features'' = JArr fs \<longrightarrow> (\<forall>f \<in> set fs. has_install_date f)) \<longrightarrow>
      prepareRows (rt\<lparr>clock := c, db_insert := d\<rparr>) g tbl = prepareRows rt g tbl)"
proof -
  let ?rt = "rt\<lparr>clock := c, db_insert := d\<rparr>"
  consider "\<not> (typeof g = ''object'' \<and> g \<noteq> JNull)"
    | "typeof g = ''object''" "g \<noteq> JNull" "optGet g ''type'' \<noteq> JStr ''FeatureCollection''"
    | "typeof g = ''object''" "g \<noteq> JNull" "optGet g ''type'' = JStr ''FeatureCollection''"
      "\<not> isArray (optGet g ''features'')"
    | "typeof g = ''object''" "g \<noteq> JNull" "optGet g ''type'' = JStr ''FeatureCollection''"
      "optGet g ''features'' = JArr []"
    | fs where "typeof g = ''object''" "g \<noteq> JNull"
      "optGet g ''type'' = JStr ''FeatureCollection''" "optGet g ''features'' = JArr fs" "fs \<noteq> []"
    by (cases "optGet g ''features''") auto
  then show ?thesis
  proof cases
    case 1
    then show ?thesis
      by (simp add: prepareRows_errors(1))
  next
    case 2
    then show ?thesis
      by (simp add: prepareRows_errors(2))
  next
    case 3
    then show ?thesis
      by (simp add: prepareRows_errors(3))
  next
    case 4
    then show ?thesis
      by (simp add: prepareRows_errors(4))
  next
    case (5 fs)
    let ?st = "\<lparr>total_stat = length fs, success = 0, failed = 0, systems = []\<rparr>"
    note v = prepareRows_valid [OF 5]
    note m = mapFeatures_clock [where rt = rt and c = c and d = d and tbl = tbl and fs = fs
        and i = 0 and st = ?st]
    from m have e: "filter (\<lambda>v. v \<noteq> JNull) (fst (mapFeatures ?rt tbl fs 0 ?st)) = [] \<longleftrightarrow>
        filter (\<lambda>v. v \<noteq> JNull) (fst (mapFeatures rt tbl fs 0 ?st)) = []"
      by (simp add: filter_not_null_empty)
    have a: "map_sum id snd (prepareRows ?rt g tbl) = map_sum id snd (prepareRows rt g tbl)"
      using m e by (simp add: v Let_def)
    have b: "prepareRows ?rt g tbl = prepareRows rt g tbl"
      if "tbl \<noteq> Urban_furniture \<or> (\<forall>i. c i = clock rt i) \<or>
        (\<forall>fs. optGet g ''features'' = JArr fs \<longrightarrow> (\<forall>f \<in> set fs. has_install_date f))"
    proof -
      from that 5(4) have "tbl \<noteq> Urban_furniture \<or> (\<forall>j. c j = clock rt j) \<or>
          (\<forall>f \<in> set fs. has_install_date f)"
        by auto
      with m have "mapFeatures ?rt tbl fs 0 ?st = mapFeatures rt tbl fs 0 ?st"
        by blast
      then show ?thesis
        by (simp add: v Let_def)
    qed
    from a b show ?thesis
      by blast
  qed
qed

text \<open>
  Claim C8 as stated fails for the urban-furniture table: a feature without an
  installation date gets the reading of the clock, so the same input mapped at two
  different times gives two different rows.
\<close>

theorem batch_mapper_clock_counterexample:
  "prepareRows example_rt (collection_of [point_feature (- 17) 14]) Urban_furniture \<noteq>
   prepareRows example_rt_later (collection_of [point_feature (- 17) 14]) Urban_furniture"
proof -
  let ?row = "\<lambda>t. JObj [(''latitude'', JNum (Fin 14)), (''longitude'', JNum (Fin (- 17))),
       (''commune_id'', JNull), (''type'', JStr ''PRN''),
       (''name'', JStr ([CHR 0xC3, CHR 0x89] @ ''l'' @ [CHR 0xC3, CHR 0xA9] @ ''ment '' @
          digits10 (0 + 1))),
       (''location'', JStr []), (''install_date'', JStr t),
       (''last_maintenance_date'', JNull), (''capacity_kg'', JNum (Fin 0)),
       (''status'', JStr ''good'')]"
  have a: "buildRow example_rt Urban_furniture (JObj []) 0 (Fin (- 17)) (Fin 14) =
      Inr (?row ''2024-01-01T00:00:00.000Z'')"
    by (simp add: buildRow_no_properties(2) example_rt_def)
  have b: "buildRow example_rt_later Urban_furniture (JObj []) 0 (Fin (- 17)) (Fin 14) =
      Inr (?row ''2025-06-30T12:00:00.000Z'')"
    by (simp add: buildRow_no_properties(2) example_rt_later_def example_rt_def)
  have ma: "mapFeature example_rt Urban_furniture (point_feature (- 17) 14) 0 st =
      (?row ''2024-01-01T00:00:00.000Z'',
       st\<lparr>success := success st + 1, systems := bumpSystem ''EPSG:4326'' (systems st)\<rparr>)" for st
    by (rule mapFeature_point_row [OF _ _ _ _ a]) simp_all
  have mb: "mapFeature example_rt_later Urban_furniture (point_feature (- 17) 14) 0 st =
      (?row ''2025-06-30T12:00:00.000Z'',
       st\<lparr>success := success st + 1, systems := bumpSystem ''EPSG:4326'' (systems st)\<rparr>)" for st
    by (rule mapFeature_point_row [OF _ _ _ _ b]) simp_all
  show ?thesis
    by (simp add: prepareRows_valid [OF collection_of_valid(1-4)] Let_def ma mb)
qed

text \<open>
  Claim C8, amended. Let two calls get the same input and the same projection and number
  conversions, and let the clock and the storage client be any. The two calls raise the
  same error or produce the same statistics. They also produce the same rows when the
  table is not the urban-furniture one, or when the clock reads the same, or when every
  feature gives an installation date; and for a table other than the urban-furniture one
  the whole upload gives the same result whatever the clock reads.
\<close>

theorem batch_mapper_repeatable:
  "map_sum id snd (prepareRows (rt\<lparr>clock := c, db_insert := d\<rparr>) g tbl) =
     map_sum id snd (prepareRows rt g tbl) \<and>
   (tbl \<noteq> Urban_furniture \<or> (\<forall>i. c i = clock rt i) \<or>
    (\<forall>fs. optGet g ''features'' = JArr fs \<longrightarrow> (\<forall>f \<in> set fs. has_install_date f)) \<longrightarrow>
      prepareRows (rt\<lparr>clock := c, db_insert := d\<rparr>) g tbl = prepareRows rt g tbl) \<and>
   (tbl \<noteq> Urban_furniture \<longrightarrow>
      uploadGeoJSONWithProj4 (rt\<lparr>clock := c\<rparr>) g tbl = uploadGeoJSONWithProj4 rt g tbl)"
proof -
  have "uploadGeoJSONWithProj4 (rt\<lparr>clock := c\<rparr>) g tbl = uploadGeoJSONWithProj4 rt g tbl"
    if "tbl \<noteq> Urban_furniture"
  proof -
    have "rt\<lparr>clock := c\<rparr> = rt\<lparr>clock := c, db_insert := db_insert rt\<rparr>"
      by simp
    then have "prepareRows (rt\<lparr>clock := c\<rparr>) g tbl = prepareRows rt g tbl"
      using prepareRows_clock [where rt = rt and c = c and d = "db_insert rt" and g = g
          and tbl = tbl] that
      by simp
    moreover have "db_insert (rt\<lparr>clock := c\<rparr>) = db_insert rt"
      by simp
    ultimately show ?thesis
      unfolding uploadGeoJSONWithProj4_def by simp
  qed
  with prepareRows_clock [where rt = rt and c = c and d = d and g = g and tbl = tbl]
  show ?thesis
    by blast
qed

text \<open>
  The input of the counterexample mapped to sweeping routes at the two times, and an
  urban-furniture feature that brings its installation date.
\<close>

theorem batch_mapper_repeatable_witness:
  "prepareRows example_rt_later (collection_of [point_feature (- 17) 14]) Sweeping_routes =
     prepareRows example_rt (collection_of [point_feature (- 17) 14]) Sweeping_routes \<and>
   map_sum id snd
     (prepareRows example_rt_later (collection_of [point_feature (- 17) 14]) Urban_furniture) =
   map_sum id snd
     (prepareRows example_rt (collection_of [point_feature (- 17) 14]) Urban_furniture) \<and>
   prepareRows example_rt_later
     (collection_of [JObj [(''geometry'', geometry_of ''Point'' (position (- 17) 14)),
        (''properties'', JObj [(''install_date'', JStr ''2020-01-01'')])]]) Urban_furniture =
   prepareRows example_rt
     (collection_of [JObj [(''geometry'', geometry_of ''Point'' (position (- 17) 14)),
        (''properties'', JObj [(''install_date'', JStr ''2020-01-01'')])]]) Urban_furniture"
proof -
  have l: "example_rt_later =
      example_rt\<lparr>clock := (\<lambda>i. ''2025-06-30T12:00:00.000Z''), db_insert := db_insert example_rt\<rparr>"
    by (simp add: example_rt_later_def)
  have h: "has_install_date (JObj [(''geometry'', geometry_of ''Point'' (position (- 17) 14)),
        (''properties'', JObj [(''install_date'', JStr ''2020-01-01'')])])"
    by (simp add: has_install_date_def optGet_def any_of_def jor_def)
  show ?thesis
    unfolding l
    using batch_mapper_repeatable [where rt = example_rt
        and c = "\<lambda>i. ''2025-06-30T12:00:00.000Z''" and d = "db_insert example_rt"
        and g = "collection_of [point_feature (- 17) 14]" and tbl = Sweeping_routes]
      batch_mapper_repeatable [where rt = example_rt
        and c = "\<lambda>i. ''2025-06-30T12:00:00.000Z''" and d = "db_insert example_rt"
        and g = "collection_of [point_feature (- 17) 14]" and tbl = Urban_furniture]
      batch_mapper_repeatable [where rt = example_rt
        and c = "\<lambda>i. ''2025-06-30T12:00:00.000Z''" and d = "db_insert example_rt"
        and g = "collection_of [JObj [(''geometry'', geometry_of ''Point'' (position (- 17) 14)),
          (''properties'', JObj [(''install_date'', JStr ''2020-01-01'')])]]"
        and tbl = Urban_furniture] h
    by (simp add: collection_of_valid(4))
qed


end
